theory Spec2Isabelle
  imports Main
begin

section \<open>Strings of the script\<close>

text \<open>
  A JavaScript string is modelled as a \<^typ>\<open>string\<close> whose characters are the code units
  0..255 (the Latin-1 range of UTF-16).  On that range \<open>String.prototype.trim\<close> strips the
  code units 9..13, 32 and 160, and \<open>toLowerCase\<close> adds 32 to the letters A..Z and to the
  accented capitals 192..222 (215, the multiplication sign, excepted).
\<close>

definition isWhiteSpace :: "char \<Rightarrow> bool" where
  "isWhiteSpace c = (let n = (of_char c :: nat) in (9 \<le> n \<and> n \<le> 13) \<or> n = 32 \<or> n = 160)"

definition trim :: "string \<Rightarrow> string" where
  "trim s = rev (dropWhile isWhiteSpace (rev (dropWhile isWhiteSpace s)))"

definition lowerChar :: "char \<Rightarrow> char" where
  "lowerChar c =
     (let n = (of_char c :: nat)
      in if (65 \<le> n \<and> n \<le> 90) \<or> (192 \<le> n \<and> n \<le> 222 \<and> n \<noteq> 215)
         then char_of (n + 32) else c)"

definition toLowerCase :: "string \<Rightarrow> string" where
  "toLowerCase s = map lowerChar s"

text \<open>Number-to-string conversion of a non-negative integer (decimal, no leading zero).\<close>

definition digit :: "nat \<Rightarrow> char" where
  "digit d = char_of (48 + d)"

function string_of_nat :: "nat \<Rightarrow> string" where
  "string_of_nat n = (if n < 10 then [digit n] else string_of_nat (n div 10) @ [digit (n mod 10)])"
  by pat_completeness auto
termination
  by (relation "measure (\<lambda>n. n)") auto

declare string_of_nat.simps [simp del]

section \<open>The document and the controller's state\<close>

text \<open>
  Elements are referred to by identity.  A job card (\<open>.job-item\<close>) carries the three things
  the script reads or writes on it: \<open>dataset.status\<close>, \<open>style.display\<close>, and what
  \<open>children[2]\<close> and \<open>children[2].querySelector("button")\<close> give: \<open>None\<close> when the card
  has fewer than three children, \<open>Some None\<close> when the third child holds no button,
  \<open>Some (Some b)\<close> for the badge button \<open>b\<close>.
\<close>

type_synonym elem = nat

record badge =
  btn_textContent :: string
  btn_className :: string

record job_item =
  dataset_status :: string
  display :: string
  third_child :: "badge option option"

text \<open>An entry of \<open>state.jobs\<close>: \<open>{ element: el, status: "none" }\<close>.\<close>

record job =
  element :: elem
  status :: string

text \<open>\<open>DOM.dashboard\<close>: for each key the text of the referenced \<open>p\<close>, \<open>None\<close> for \<open>null\<close>.\<close>

record dashboard =
  Total :: "string option"
  Interview :: "string option"
  Rejected :: "string option"

text \<open>
  \<open>state\<close>, the cached \<open>DOM\<close> selectors and the part of the document they reach:
  \<open>container\<close> lists the job cards attached below \<open>DOM.container\<close> in document order
  (\<open>querySelectorAll\<close> finds descendants, so a card may lie inside another card),
  \<open>enclosing\<close> gives for every card the cards it lies inside, the nearest first,
  \<open>nodes\<close> holds every job card (attached or not) by identity, \<open>emptyUI\<close> is the
  \<open>style.display\<close> of the \<open>.no-jobs-msg\<close> block when the container has one (its class and
  inner markup, constants written once when the script builds the block, are left out),
  \<open>classList\<close> the class tokens of the tab buttons in their order, \<open>countMsg\<close> the text of
  \<open>#job-count\<close> when it exists.
\<close>

record world =
  currentTab :: string
  jobs :: "job list"
  container :: "elem list"
  enclosing :: "elem \<Rightarrow> elem list"
  nodes :: "elem \<Rightarrow> job_item"
  emptyUI :: "string option"
  tabButtons :: "elem list"
  classList :: "elem \<Rightarrow> string list"
  countMsg :: "string option"
  dashboard :: dashboard

text \<open>What a click handler reads from its event: the target and the \<open>closest\<close> lookups on it.\<close>

record event =
  target :: elem
  tagName :: string
  textContent :: string
  closest_job_item :: "elem option"
  closest_fa_trash :: bool
  closest_div_border_rounded_full :: bool

datatype error = TypeError

section \<open>Core logic and UI updates\<close>

definition countStep :: "nat \<times> nat \<Rightarrow> job \<Rightarrow> nat \<times> nat" where
  "countStep c jb =
     (let i = (if status jb = ''Interview'' then fst c + 1 else fst c);
          r = (if status jb = ''Rejected'' then snd c + 1 else snd c)
      in (i, r))"

definition write_text :: "string option \<Rightarrow> string \<Rightarrow> string option" where
  "write_text el t = (case el of None \<Rightarrow> None | Some _ \<Rightarrow> Some t)"

definition updateDashboardCounts :: "world \<Rightarrow> world" where
  "updateDashboardCounts w =
     (let total = length (jobs w);
          c = foldl countStep (0, 0) (jobs w);
          d = dashboard w
      in w\<lparr>dashboard :=
            \<lparr>Total = write_text (Total d) (string_of_nat total),
             Interview = write_text (Interview d) (string_of_nat (fst c)),
             Rejected = write_text (Rejected d) (string_of_nat (snd c))\<rparr>\<rparr>)"

definition isVisible :: "string \<Rightarrow> job \<Rightarrow> bool" where
  "isVisible tab jb = ((tab = ''All'' \<and> status jb = ''none'') \<or> tab = status jb)"

fun renderLoop :: "string \<Rightarrow> job list \<Rightarrow> (elem \<Rightarrow> job_item) \<times> nat \<Rightarrow> (elem \<Rightarrow> job_item) \<times> nat" where
  "renderLoop tab [] acc = acc"
| "renderLoop tab (jb # js) (nd, visibleCount) =
     renderLoop tab js
       (nd(element jb := (nd (element jb))\<lparr>display := (if isVisible tab jb then ''block'' else ''none'')\<rparr>),
        (if isVisible tab jb then visibleCount + 1 else visibleCount))"

definition toggleEmptyState :: "nat \<Rightarrow> world \<Rightarrow> world" where
  "toggleEmptyState visibleCount w =
     (if visibleCount = 0 then
        (case emptyUI w of
           None \<Rightarrow> w\<lparr>emptyUI := Some ''flex''\<rparr>
         | Some _ \<Rightarrow> w\<lparr>emptyUI := Some ''flex''\<rparr>)
      else
        (case emptyUI w of
           None \<Rightarrow> w
         | Some _ \<Rightarrow> w\<lparr>emptyUI := Some ''none''\<rparr>))"

definition renderJobs :: "world \<Rightarrow> world" where
  "renderJobs w =
     (let r = renderLoop (currentTab w) (jobs w) (nodes w, 0);
          visibleCount = snd r;
          w1 = w\<lparr>nodes := fst r\<rparr>;
          w2 = w1\<lparr>countMsg := write_text (countMsg w1) (string_of_nat visibleCount @ '' jobs'')\<rparr>
      in toggleEmptyState visibleCount w2)"

definition updateUI :: "world \<Rightarrow> world" where
  "updateUI w = renderJobs (updateDashboardCounts w)"

section \<open>Event handlers\<close>

definition classList_remove :: "string \<Rightarrow> string list \<Rightarrow> string list" where
  "classList_remove c cs = filter (\<lambda>x. x \<noteq> c) cs"

definition classList_add :: "string \<Rightarrow> string list \<Rightarrow> string list" where
  "classList_add c cs = (if c \<in> set cs then cs else cs @ [c])"

definition deemphasize :: "(elem \<Rightarrow> string list) \<Rightarrow> elem \<Rightarrow> (elem \<Rightarrow> string list)" where
  "deemphasize cl btn =
     cl(btn := classList_add ''btn-soft''
                 (classList_remove ''text-white'' (classList_remove ''bg-[#3B82F6]'' (cl btn))))"

definition emphasize :: "(elem \<Rightarrow> string list) \<Rightarrow> elem \<Rightarrow> (elem \<Rightarrow> string list)" where
  "emphasize cl btn =
     cl(btn := classList_add ''text-white''
                 (classList_add ''bg-[#3B82F6]'' (classList_remove ''btn-soft'' (cl btn))))"

definition handleTabClick :: "event \<Rightarrow> world \<Rightarrow> world" where
  "handleTabClick e w =
     (if tagName e \<noteq> ''BUTTON'' then w
      else
        (let cl = emphasize (foldl deemphasize (classList w) (tabButtons w)) (target e);
             w1 = w\<lparr>classList := cl\<rparr>;
             w2 = w1\<lparr>currentTab := trim (textContent e)\<rparr>
         in renderJobs w2))"

fun findIndex :: "('a \<Rightarrow> bool) \<Rightarrow> 'a list \<Rightarrow> int" where
  "findIndex P [] = - 1"
| "findIndex P (x # xs) =
     (if P x then 0 else (let r = findIndex P xs in if r = - 1 then - 1 else r + 1))"

text \<open>
  \<open>element.remove()\<close> takes the card out of its parent together with everything below it:
  the card and the cards inside it are no longer attached, and from then on the card lies
  inside no card, and a card inside it no longer lies inside the cards above it.
\<close>

definition element_remove :: "elem \<Rightarrow> world \<Rightarrow> world" where
  "element_remove el w =
     w\<lparr>container := filter (\<lambda>x. x \<noteq> el \<and> el \<notin> set (enclosing w x)) (container w),
       enclosing := (\<lambda>x. if x = el then []
                          else if el \<in> set (enclosing w x)
                               then takeWhile (\<lambda>a. a \<noteq> el) (enclosing w x) @ [el]
                               else enclosing w x)\<rparr>"

text \<open>
  \<open>state.jobs[index]\<close> is \<open>undefined\<close> outside the array, and reading \<open>.element\<close> or writing
  \<open>.status\<close> on it throws a \<open>TypeError\<close> before anything has been changed.  \<open>restyle\<close> is
  the badge part of \<open>updateJobStatus\<close>: the lookup of \<open>wrapper\<close> and \<open>badgeBtn\<close> and the
  guarded writes of the label and the class.
\<close>

definition deleteJob :: "int \<Rightarrow> world \<Rightarrow> error + world" where
  "deleteJob index w =
     (if 0 \<le> index \<and> index < int (length (jobs w)) then
        (let i = nat index;
             el = element (jobs w ! i);
             w1 = element_remove el w;
             w2 = w1\<lparr>jobs := take i (jobs w1) @ drop (Suc i) (jobs w1)\<rparr>
         in Inr (updateUI w2))
      else Inl TypeError)"

definition restyle :: "string \<Rightarrow> badge option option \<Rightarrow> badge option option" where
  "restyle newStatus wrapper =
     (case wrapper of
        None \<Rightarrow> None
      | Some None \<Rightarrow> Some None
      | Some (Some badgeBtn) \<Rightarrow>
          Some (Some (badgeBtn\<lparr>btn_textContent := newStatus,
                              btn_className :=
                                (if newStatus = ''Interview''
                                 then ''btn btn-soft bg-[#10B981] text-white border-none w-max px-4''
                                 else ''btn btn-soft bg-[#EF4444] text-white border-none w-max px-4'')\<rparr>)))"

definition updateJobStatus :: "int \<Rightarrow> string \<Rightarrow> world \<Rightarrow> error + world" where
  "updateJobStatus index newStatusLabel w =
     (if 0 \<le> index \<and> index < int (length (jobs w)) then
        (let i = nat index;
             jb = jobs w ! i;
             newStatus = (if newStatusLabel = ''interview'' then ''Interview'' else ''Rejected'');
             w1 = w\<lparr>jobs := (jobs w)[i := jb\<lparr>status := newStatus\<rparr>]\<rparr>;
             el = element jb;
             w2 = w1\<lparr>nodes := (nodes w1)(el := (nodes w1 el)\<lparr>dataset_status := newStatus\<rparr>)\<rparr>;
             w3 = w2\<lparr>nodes := (nodes w2)(el := (nodes w2 el)\<lparr>third_child := restyle newStatus (third_child (nodes w2 el))\<rparr>)\<rparr>
         in Inr (updateUI w3))
      else Inl TypeError)"

definition handleJobAction :: "event \<Rightarrow> world \<Rightarrow> error + world" where
  "handleJobAction e w =
     (case closest_job_item e of
        None \<Rightarrow> Inr w
      | Some jobEl \<Rightarrow>
          (let jobIndex = findIndex (\<lambda>j. element j = jobEl) (jobs w)
           in if jobIndex = - 1 then Inr w
              else if closest_fa_trash e \<or> closest_div_border_rounded_full e then deleteJob jobIndex w
              else if tagName e = ''BUTTON'' then
                (let btnText = toLowerCase (trim (textContent e))
                 in if btnText = ''interview'' \<or> btnText = ''rejected''
                    then updateJobStatus jobIndex btnText w
                    else Inr w)
              else Inr w))"

section \<open>Initialization\<close>

text \<open>
  The page the script is loaded into: \<open>pg_container\<close> is \<open>None\<close> when no \<open>.all-job\<close> element
  exists and otherwise lists its \<open>.job-item\<close> descendants in document order; \<open>pg_enclosing\<close>
  gives for each of them the job cards it lies inside, the nearest first; \<open>pg_tabs\<close> says
  whether \<open>#tab-buttons\<close> exists; each entry of \<open>pg_cards\<close> is a \<open>#dasbord-cards .flex-1\<close>
  card, given by the text of its \<open>h3\<close> and of its \<open>p\<close> (\<open>None\<close> where that child is missing).
\<close>

record page =
  pg_container :: "elem list option"
  pg_enclosing :: "elem \<Rightarrow> elem list"
  pg_nodes :: "elem \<Rightarrow> job_item"
  pg_emptyUI :: "string option"
  pg_tabs :: bool
  pg_tabButtons :: "elem list"
  pg_classList :: "elem \<Rightarrow> string list"
  pg_countMsg :: "string option"
  pg_cards :: "(string option \<times> string option) list"

fun initDashboard :: "(string option \<times> string option) list \<Rightarrow> dashboard \<Rightarrow> error + dashboard" where
  "initDashboard [] d = Inr d"
| "initDashboard ((h3, p) # cards) d =
     (case h3 of
        None \<Rightarrow> Inl TypeError
      | Some t \<Rightarrow>
          (let title = trim t
           in initDashboard cards
                (if title = ''Total'' then d\<lparr>Total := p\<rparr>
                 else if title = ''Interview'' then d\<lparr>Interview := p\<rparr>
                 else if title = ''Rejected'' then d\<lparr>Rejected := p\<rparr>
                 else d)))"

fun initLoop :: "elem list \<Rightarrow> job list \<times> (elem \<Rightarrow> job_item) \<Rightarrow> job list \<times> (elem \<Rightarrow> job_item)" where
  "initLoop [] acc = acc"
| "initLoop (el # els) (js, nd) =
     initLoop els (js @ [\<lparr>element = el, status = ''none''\<rparr>],
                   nd(el := (nd el)\<lparr>dataset_status := ''none''\<rparr>))"

definition init :: "page \<Rightarrow> error + world" where
  "init p =
     (case initDashboard (pg_cards p) \<lparr>Total = None, Interview = None, Rejected = None\<rparr> of
        Inl err \<Rightarrow> Inl err
      | Inr d \<Rightarrow>
          (case pg_container p of
             None \<Rightarrow> Inl TypeError
           | Some jobElements \<Rightarrow>
               (let r = initLoop jobElements ([], pg_nodes p)
                in if \<not> pg_tabs p then Inl TypeError
                   else Inr (updateUI
                          \<lparr>currentTab = ''All'', jobs = fst r, container = jobElements,
                           enclosing = pg_enclosing p, nodes = snd r, emptyUI = pg_emptyUI p,
                           tabButtons = pg_tabButtons p, classList = pg_classList p,
                           countMsg = pg_countMsg p, dashboard = d\<rparr>))))"

section \<open>Runs of the controller\<close>

text \<open>
  The operations that change the controller after start-up: the two delegated click
  handlers, and the two mutations they dispatch to, called on their own.  An operation
  that throws leaves the state as it was (the exception precedes every write).
\<close>

datatype action =
    JobAction event
  | TabClick event
  | UpdateJobStatus int string
  | DeleteJob int

fun perform :: "action \<Rightarrow> world \<Rightarrow> error + world" where
  "perform (JobAction e) w = handleJobAction e w"
| "perform (TabClick e) w = Inr (handleTabClick e w)"
| "perform (UpdateJobStatus index newStatusLabel) w = updateJobStatus index newStatusLabel w"
| "perform (DeleteJob index) w = deleteJob index w"

fun run :: "action list \<Rightarrow> world \<Rightarrow> world" where
  "run [] w = w"
| "run (a # as) w = (case perform a w of Inl _ \<Rightarrow> run as w | Inr w' \<Rightarrow> run as w')"

section \<open>Derived quantities, invariants and example states\<close>

text \<open>
  The two per-status counters of \<open>updateDashboardCounts\<close> (the \<open>DashboardCounts\<close> of the
  specification), as the loop computes them.
\<close>

definition InterviewCount :: "world \<Rightarrow> nat" where
  "InterviewCount w = fst (foldl countStep (0, 0) (jobs w))"

definition RejectedCount :: "world \<Rightarrow> nat" where
  "RejectedCount w = snd (foldl countStep (0, 0) (jobs w))"

text \<open>
  The status a label is turned into (\<open>newStatusLabel === "interview" ? "Interview" : "Rejected"\<close>),
  the writes of \<open>updateJobStatus\<close> that come before its \<open>updateUI\<close>, and those of \<open>deleteJob\<close>.
\<close>

definition newStatus_of :: "string \<Rightarrow> string" where
  "newStatus_of l = (if l = ''interview'' then ''Interview'' else ''Rejected'')"

definition mark :: "nat \<Rightarrow> string \<Rightarrow> world \<Rightarrow> world" where
  "mark i s w =
     w\<lparr>jobs := (jobs w)[i := (jobs w ! i)\<lparr>status := s\<rparr>],
       nodes := (nodes w)(element (jobs w ! i) :=
                  (nodes w (element (jobs w ! i)))
                    \<lparr>dataset_status := s,
                     third_child := restyle s (third_child (nodes w (element (jobs w ! i))))\<rparr>)\<rparr>"

definition unlink :: "nat \<Rightarrow> world \<Rightarrow> world" where
  "unlink i w =
     (element_remove (element (jobs w ! i)) w)\<lparr>jobs := take i (jobs w) @ drop (Suc i) (jobs w)\<rparr>"

text \<open>A card is shown unless its \<open>style.display\<close> is \<open>none\<close>.\<close>

definition visible :: "world \<Rightarrow> elem \<Rightarrow> bool" where
  "visible w el = (display (nodes w el) \<noteq> ''none'')"

text \<open>
  The collection and the document are synchronized when the records' elements are, in order
  and without repetition, exactly the job cards attached to the container, and every card's
  status tag is its record's status.  \<open>statuses_ok\<close> says that every status is one of the
  three the script writes.
\<close>

definition synced :: "world \<Rightarrow> bool" where
  "synced w =
     (distinct (container w) \<and> map element (jobs w) = container w \<and>
      list_all (\<lambda>j. dataset_status (nodes w (element j)) = status j) (jobs w))"

definition statuses_ok :: "world \<Rightarrow> bool" where
  "statuses_ok w = list_all (\<lambda>j. status j = ''none'' \<or> status j = ''Interview'' \<or> status j = ''Rejected'') (jobs w)"

text \<open>
  A node list never holds a node twice.  A page, or a state, is flat when none of its
  (attached) job cards lies inside another job card.
\<close>

definition well_formed_page :: "page \<Rightarrow> bool" where
  "well_formed_page p = (case pg_container p of None \<Rightarrow> True | Some jobElements \<Rightarrow> distinct jobElements)"

definition flat_page :: "page \<Rightarrow> bool" where
  "flat_page p =
     (case pg_container p of
        None \<Rightarrow> True
      | Some jobElements \<Rightarrow> list_all (\<lambda>x. pg_enclosing p x = []) jobElements)"

definition flat :: "world \<Rightarrow> bool" where
  "flat w = list_all (\<lambda>x. enclosing w x = []) (container w)"

text \<open>
  Modelled from the spec: the markup of the tab bar is not among the sources; by the data
  model (\<open>FilterSelection\<close>: one value from \<open>{All, Interview, Rejected}\<close>) its controls carry
  these labels.
\<close>

definition tab_labels :: "string list" where
  "tab_labels = [''All'', ''Interview'', ''Rejected'']"

text \<open>The two looks of a tab button.\<close>

definition deemphasized :: "string list \<Rightarrow> bool" where
  "deemphasized cs = (''btn-soft'' \<in> set cs \<and> ''text-white'' \<notin> set cs \<and> ''bg-[#3B82F6]'' \<notin> set cs)"

definition emphasized :: "string list \<Rightarrow> bool" where
  "emphasized cs = (''btn-soft'' \<notin> set cs \<and> ''text-white'' \<in> set cs \<and> ''bg-[#3B82F6]'' \<in> set cs)"

text \<open>
  Example states: a page of three job cards, the third without a badge button; the
  controller's state on it after start-up (\<open>fresh\<close>) and after card 1 went to interview
  (\<open>interviewing\<close>); a four-card state with the statuses none, Interview, Rejected, none;
  and three clicks.
\<close>

definition blank :: job_item where
  "blank = \<lparr>dataset_status = '''', display = '''',
            third_child = Some (Some \<lparr>btn_textContent = ''Not Applied'', btn_className = ''btn btn-soft''\<rparr>)\<rparr>"

definition demo_page :: page where
  "demo_page =
     \<lparr>pg_container = Some [0, 1, 2],
      pg_enclosing = (\<lambda>_. []),
      pg_nodes = (\<lambda>_. blank)(2 := blank\<lparr>third_child := None\<rparr>),
      pg_emptyUI = None,
      pg_tabs = True,
      pg_tabButtons = [10, 11, 12],
      pg_classList = (\<lambda>_. [''btn'']),
      pg_countMsg = Some '''',
      pg_cards = [(Some ''Total'', Some ''0''), (Some '' Interview '', Some ''0''),
                  (Some ''Rejected'', Some ''0'')]\<rparr>"

definition fresh :: world where
  "fresh =
     \<lparr>currentTab = ''All'',
      jobs = [\<lparr>element = 0, status = ''none''\<rparr>, \<lparr>element = 1, status = ''none''\<rparr>,
              \<lparr>element = 2, status = ''none''\<rparr>],
      container = [0, 1, 2],
      enclosing = (\<lambda>_. []),
      nodes = (\<lambda>_. blank)
        (0 := blank\<lparr>dataset_status := ''none'', display := ''block''\<rparr>,
         1 := blank\<lparr>dataset_status := ''none'', display := ''block''\<rparr>,
         2 := blank\<lparr>dataset_status := ''none'', display := ''block'', third_child := None\<rparr>),
      emptyUI = None,
      tabButtons = [10, 11, 12],
      classList = (\<lambda>_. [''btn'']),
      countMsg = Some ''3 jobs'',
      dashboard = \<lparr>Total = Some ''3'', Interview = Some ''0'', Rejected = Some ''0''\<rparr>\<rparr>"

definition interviewing :: world where
  "interviewing =
     \<lparr>currentTab = ''All'',
      jobs = [\<lparr>element = 0, status = ''none''\<rparr>, \<lparr>element = 1, status = ''Interview''\<rparr>,
              \<lparr>element = 2, status = ''none''\<rparr>],
      container = [0, 1, 2],
      enclosing = (\<lambda>_. []),
      nodes = (\<lambda>_. blank)
        (0 := blank\<lparr>dataset_status := ''none'', display := ''block''\<rparr>,
         1 := \<lparr>dataset_status = ''Interview'', display = ''none'',
                third_child = Some (Some \<lparr>btn_textContent = ''Interview'',
                  btn_className = ''btn btn-soft bg-[#10B981] text-white border-none w-max px-4''\<rparr>)\<rparr>,
         2 := blank\<lparr>dataset_status := ''none'', display := ''block'', third_child := None\<rparr>),
      emptyUI = None,
      tabButtons = [10, 11, 12],
      classList = (\<lambda>_. [''btn'']),
      countMsg = Some ''2 jobs'',
      dashboard = \<lparr>Total = Some ''3'', Interview = Some ''1'', Rejected = Some ''0''\<rparr>\<rparr>"

definition four_jobs :: world where
  "four_jobs =
     \<lparr>currentTab = ''All'',
      jobs = [\<lparr>element = 0, status = ''none''\<rparr>, \<lparr>element = 1, status = ''Interview''\<rparr>,
              \<lparr>element = 2, status = ''Rejected''\<rparr>, \<lparr>element = 3, status = ''none''\<rparr>],
      container = [0, 1, 2, 3],
      enclosing = (\<lambda>_. []),
      nodes = (\<lambda>_. blank),
      emptyUI = None,
      tabButtons = [10, 11, 12],
      classList = (\<lambda>_. [''btn'']),
      countMsg = Some '''',
      dashboard = \<lparr>Total = Some ''4'', Interview = Some ''1'', Rejected = Some ''1''\<rparr>\<rparr>"

definition click_interview :: event where
  "click_interview =
     \<lparr>target = 21, tagName = ''BUTTON'', textContent = '' Interview '',
      closest_job_item = Some 1, closest_fa_trash = False,
      closest_div_border_rounded_full = False\<rparr>"

definition click_trash :: event where
  "click_trash =
     \<lparr>target = 22, tagName = ''BUTTON'', textContent = ''Rejected'',
      closest_job_item = Some 1, closest_fa_trash = True,
      closest_div_border_rounded_full = False\<rparr>"

definition click_tab :: event where
  "click_tab =
     \<lparr>target = 11, tagName = ''BUTTON'', textContent = '' Interview '',
      closest_job_item = None, closest_fa_trash = False,
      closest_div_border_rounded_full = False\<rparr>"

text \<open>
  The same page with card 1 inside card 0, the controller's state on it after start-up, and
  a click on the trash icon of card 0.
\<close>

definition nested_page :: page where
  "nested_page = demo_page\<lparr>pg_enclosing := (\<lambda>_. [])(1 := [0])\<rparr>"

definition nested_fresh :: world where
  "nested_fresh = fresh\<lparr>enclosing := (\<lambda>_. [])(1 := [0])\<rparr>"

definition click_trash_outer :: event where
  "click_trash_outer =
     \<lparr>target = 23, tagName = ''I'', textContent = '' '',
      closest_job_item = Some 0, closest_fa_trash = True,
      closest_div_border_rounded_full = True\<rparr>"

section \<open>The loops, pointwise\<close>

lemma foldl_countStep:
  "foldl countStep (i, r) js =
     (i + length (filter (\<lambda>j. status j = ''Interview'') js),
      r + length (filter (\<lambda>j. status j = ''Rejected'') js))"
  by (induction js arbitrary: i r) (simp_all add: countStep_def)

lemma renderLoop_count:
  "snd (renderLoop tab js (nd, c)) = c + length (filter (isVisible tab) js)"
  by (induction js arbitrary: nd c) simp_all

lemma find_snoc:
  "find P (xs @ [x]) = (case find P xs of None \<Rightarrow> (if P x then Some x else None) | Some y \<Rightarrow> Some y)"
  by (induction xs) simp_all

lemma renderLoop_nodes:
  "fst (renderLoop tab js (nd, c)) e =
     (case find (\<lambda>j. element j = e) (rev js) of
        None \<Rightarrow> nd e
      | Some j \<Rightarrow> (nd e)\<lparr>display := (if isVisible tab j then ''block'' else ''none'')\<rparr>)"
proof (induction js arbitrary: nd c)
  case Nil
  show ?case by simp
next
  case (Cons jb js)
  show ?case
    by (simp add: Cons.IH find_snoc split: option.split)
qed

lemma renderLoop_idem:
  "fst (renderLoop tab js (fst (renderLoop tab js (nd, c)), c')) = fst (renderLoop tab js (nd, c))"
  by (rule ext) (simp add: renderLoop_nodes split: option.split)

lemma find_SomeD: "find P xs = Some x \<Longrightarrow> x \<in> set xs \<and> P x"
  by (induction xs) (auto split: if_splits)

lemma find_rev_distinct:
  assumes "distinct (map element js)" "jb \<in> set js"
  shows "find (\<lambda>j. element j = element jb) (rev js) = Some jb"
  using assms
proof (induction js)
  case Nil
  then show ?case by simp
next
  case (Cons a js)
  show ?case
  proof (cases "find (\<lambda>j. element j = element jb) (rev js)")
    case None
    have "jb \<notin> set js"
    proof
      assume "jb \<in> set js"
      with Cons have "find (\<lambda>j. element j = element jb) (rev js) = Some jb" by simp
      with None show False by simp
    qed
    with Cons.prems have "jb = a" by simp
    with None show ?thesis by (simp add: find_snoc)
  next
    case (Some y)
    from find_SomeD[OF Some] have y: "y \<in> set js" "element y = element jb" by simp_all
    have "jb \<in> set js"
    proof (rule ccontr)
      assume "jb \<notin> set js"
      with Cons.prems have "jb = a" by simp
      have "element jb \<in> element ` set js"
        using y by (metis imageI)
      moreover have "element a \<notin> element ` set js"
        using Cons.prems by simp
      ultimately show False using \<open>jb = a\<close> by simp
    qed
    with Cons have "find (\<lambda>j. element j = element jb) (rev js) = Some jb" by simp
    then show ?thesis by (simp add: find_snoc)
  qed
qed

lemma renderLoop_display:
  assumes "distinct (map element js)" "jb \<in> set js"
  shows "display (fst (renderLoop tab js (nd, c)) (element jb)) =
           (if isVisible tab jb then ''block'' else ''none'')"
  by (simp add: renderLoop_nodes find_rev_distinct[OF assms])

lemma renderLoop_dataset [simp]:
  "dataset_status (fst (renderLoop tab js (nd, c)) e) = dataset_status (nd e)"
  by (simp add: renderLoop_nodes split: option.split)

lemma renderLoop_third_child [simp]:
  "third_child (fst (renderLoop tab js (nd, c)) e) = third_child (nd e)"
  by (simp add: renderLoop_nodes split: option.split)

section \<open>What each update leaves alone\<close>

lemma toggleEmptyState_fields [simp]:
  "jobs (toggleEmptyState n w) = jobs w"
  "currentTab (toggleEmptyState n w) = currentTab w"
  "container (toggleEmptyState n w) = container w"
  "enclosing (toggleEmptyState n w) = enclosing w"
  "nodes (toggleEmptyState n w) = nodes w"
  "tabButtons (toggleEmptyState n w) = tabButtons w"
  "classList (toggleEmptyState n w) = classList w"
  "countMsg (toggleEmptyState n w) = countMsg w"
  "dashboard (toggleEmptyState n w) = dashboard w"
  by (simp_all add: toggleEmptyState_def split: option.split)

lemma renderJobs_fields [simp]:
  "jobs (renderJobs w) = jobs w"
  "currentTab (renderJobs w) = currentTab w"
  "container (renderJobs w) = container w"
  "enclosing (renderJobs w) = enclosing w"
  "tabButtons (renderJobs w) = tabButtons w"
  "classList (renderJobs w) = classList w"
  "dashboard (renderJobs w) = dashboard w"
  by (simp_all add: renderJobs_def Let_def)

lemma renderJobs_nodes:
  "nodes (renderJobs w) = fst (renderLoop (currentTab w) (jobs w) (nodes w, 0))"
  by (simp add: renderJobs_def Let_def)

lemma renderJobs_countMsg:
  "countMsg (renderJobs w) =
     write_text (countMsg w) (string_of_nat (length (filter (isVisible (currentTab w)) (jobs w))) @ '' jobs'')"
  by (simp add: renderJobs_def Let_def renderLoop_count)

lemma renderJobs_emptyUI:
  "emptyUI (renderJobs w) =
     (if length (filter (isVisible (currentTab w)) (jobs w)) = 0 then Some ''flex''
      else write_text (emptyUI w) ''none'')"
  by (simp add: renderJobs_def Let_def renderLoop_count toggleEmptyState_def write_text_def
      split: option.split)

lemma renderJobs_dataset [simp]:
  "dataset_status (nodes (renderJobs w) e) = dataset_status (nodes w e)"
  "third_child (nodes (renderJobs w) e) = third_child (nodes w e)"
  by (simp_all add: renderJobs_nodes)

lemma updateDashboardCounts_fields [simp]:
  "jobs (updateDashboardCounts w) = jobs w"
  "currentTab (updateDashboardCounts w) = currentTab w"
  "container (updateDashboardCounts w) = container w"
  "enclosing (updateDashboardCounts w) = enclosing w"
  "nodes (updateDashboardCounts w) = nodes w"
  "emptyUI (updateDashboardCounts w) = emptyUI w"
  "tabButtons (updateDashboardCounts w) = tabButtons w"
  "classList (updateDashboardCounts w) = classList w"
  "countMsg (updateDashboardCounts w) = countMsg w"
  by (simp_all add: updateDashboardCounts_def Let_def)

lemma updateDashboardCounts_dashboard:
  "dashboard (updateDashboardCounts w) =
     \<lparr>Total = write_text (Total (dashboard w)) (string_of_nat (length (jobs w))),
      Interview = write_text (Interview (dashboard w))
        (string_of_nat (length (filter (\<lambda>j. status j = ''Interview'') (jobs w)))),
      Rejected = write_text (Rejected (dashboard w))
        (string_of_nat (length (filter (\<lambda>j. status j = ''Rejected'') (jobs w))))\<rparr>"
  by (simp add: updateDashboardCounts_def Let_def foldl_countStep)

lemma updateUI_fields [simp]:
  "jobs (updateUI w) = jobs w"
  "currentTab (updateUI w) = currentTab w"
  "container (updateUI w) = container w"
  "enclosing (updateUI w) = enclosing w"
  "tabButtons (updateUI w) = tabButtons w"
  "classList (updateUI w) = classList w"
  "dataset_status (nodes (updateUI w) e) = dataset_status (nodes w e)"
  "third_child (nodes (updateUI w) e) = third_child (nodes w e)"
  by (simp_all add: updateUI_def)

lemma updateUI_dashboard:
  "dashboard (updateUI w) =
     \<lparr>Total = write_text (Total (dashboard w)) (string_of_nat (length (jobs w))),
      Interview = write_text (Interview (dashboard w))
        (string_of_nat (length (filter (\<lambda>j. status j = ''Interview'') (jobs w)))),
      Rejected = write_text (Rejected (dashboard w))
        (string_of_nat (length (filter (\<lambda>j. status j = ''Rejected'') (jobs w))))\<rparr>"
  by (simp add: updateUI_def updateDashboardCounts_dashboard)

lemma write_text_idem [simp]: "write_text (write_text el s) t = write_text el t"
  by (simp add: write_text_def split: option.split)

lemma renderJobs_idem: "renderJobs (renderJobs w) = renderJobs w"
  by (rule world.equality)
     (simp_all add: renderJobs_nodes renderLoop_idem renderJobs_countMsg renderJobs_emptyUI
        write_text_def split: option.split)

lemma updateDashboardCounts_idem:
  "updateDashboardCounts (updateDashboardCounts w) = updateDashboardCounts w"
  by (rule world.equality) (simp_all add: updateDashboardCounts_dashboard)

lemma updateDashboardCounts_renderJobs:
  "updateDashboardCounts (renderJobs w) = renderJobs (updateDashboardCounts w)"
  by (rule world.equality)
     (simp_all add: updateDashboardCounts_dashboard renderJobs_nodes renderJobs_countMsg
        renderJobs_emptyUI)

lemma updateUI_idem: "updateUI (updateUI w) = updateUI w"
  by (simp add: updateUI_def updateDashboardCounts_renderJobs updateDashboardCounts_idem
      renderJobs_idem)

section \<open>Status transition\<close>

lemma updateJobStatus_valid:
  assumes "0 \<le> i" "i < int (length (jobs w))"
  shows "updateJobStatus i l w = Inr (updateUI (mark (nat i) (newStatus_of l) w))"
  using assms by (simp add: updateJobStatus_def mark_def newStatus_of_def Let_def)

lemma updateJobStatus_invalid:
  "\<not> (0 \<le> i \<and> i < int (length (jobs w))) \<Longrightarrow> updateJobStatus i l w = Inl TypeError"
  unfolding updateJobStatus_def by (simp only: if_False)

lemma restyle_idem [simp]: "restyle s (restyle s x) = restyle s x"
  by (simp add: restyle_def split: option.split)

lemma mark_fields [simp]:
  "currentTab (mark i s w) = currentTab w"
  "container (mark i s w) = container w"
  "enclosing (mark i s w) = enclosing w"
  "emptyUI (mark i s w) = emptyUI w"
  "tabButtons (mark i s w) = tabButtons w"
  "classList (mark i s w) = classList w"
  "countMsg (mark i s w) = countMsg w"
  "dashboard (mark i s w) = dashboard w"
  "jobs (mark i s w) = (jobs w)[i := (jobs w ! i)\<lparr>status := s\<rparr>]"
  by (simp_all add: mark_def)

lemma mark_updateUI_mark:
  assumes "i < length (jobs w)"
  shows "mark i s (updateUI (mark i s w)) = updateUI (mark i s w)"
proof -
  let ?w1 = "updateUI (mark i s w)"
  let ?el = "element (jobs w ! i)"
  have j: "jobs ?w1 ! i = (jobs w ! i)\<lparr>status := s\<rparr>"
    using assms by simp
  have el: "element (jobs ?w1 ! i) = ?el"
    unfolding j by simp
  have ds: "dataset_status (nodes (mark i s w) ?el) = s"
    by (simp add: mark_def)
  have tc: "third_child (nodes (mark i s w) ?el) = restyle s (third_child (nodes w ?el))"
    by (simp add: mark_def)
  have n: "(nodes ?w1 ?el)\<lparr>dataset_status := s,
              third_child := restyle s (third_child (nodes ?w1 ?el))\<rparr> = nodes ?w1 ?el"
    by (rule job_item.equality) (simp_all add: ds tc)
  have jl: "(jobs ?w1)[i := (jobs ?w1 ! i)\<lparr>status := s\<rparr>] = jobs ?w1"
    using assms by simp
  show ?thesis
    unfolding mark_def [of i s ?w1] el n jl by simp
qed

section \<open>Synchronization is preserved\<close>

lemma synced_updateUI: "synced (updateUI w) = synced w"
  by (simp add: synced_def)

lemma synced_renderJobs: "synced (renderJobs w) = synced w"
  by (simp add: synced_def)

lemma statuses_ok_updateUI: "statuses_ok (updateUI w) = statuses_ok w"
  by (simp add: statuses_ok_def)

lemma statuses_ok_renderJobs: "statuses_ok (renderJobs w) = statuses_ok w"
  by (simp add: statuses_ok_def)

lemma distinct_element_nth:
  assumes "distinct (map element js)" "k < length js" "i < length js" "k \<noteq> i"
  shows "element (js ! k) \<noteq> element (js ! i)"
proof
  assume "element (js ! k) = element (js ! i)"
  with assms(2,3) have "map element js ! k = map element js ! i" by simp
  with assms(1,2,3) have "k = i"
    by (simp add: nth_eq_iff_index_eq del: nth_map)
  with assms(4) show False by simp
qed

lemma synced_mark:
  assumes "synced w" "i < length (jobs w)"
  shows "synced (mark i s w)"
proof -
  have d: "distinct (map element (jobs w))" using assms(1) by (simp add: synced_def)
  have m: "map element ((jobs w)[i := (jobs w ! i)\<lparr>status := s\<rparr>]) = map element (jobs w)"
    using assms(2) by (simp add: map_update list_update_same_conv)
  have old: "dataset_status (nodes w (element (jobs w ! k))) = status (jobs w ! k)"
    if "k < length (jobs w)" for k
    using assms(1) that by (simp add: synced_def list_all_length)
  have "dataset_status (nodes (mark i s w) (element (jobs (mark i s w) ! k))) =
          status (jobs (mark i s w) ! k)"
    if "k < length (jobs w)" for k
  proof (cases "k = i")
    case True
    with assms(2) show ?thesis by (simp add: mark_def)
  next
    case False
    from distinct_element_nth [OF d that assms(2) False] old [OF that] False
    show ?thesis by (simp add: mark_def)
  qed
  then have "list_all (\<lambda>j. dataset_status (nodes (mark i s w) (element j)) = status j)
               (jobs (mark i s w))"
    by (simp add: list_all_length)
  then show ?thesis
    using assms(1) m by (simp add: synced_def)
qed

lemma statuses_ok_mark:
  assumes "statuses_ok w" "i < length (jobs w)"
  shows "statuses_ok (mark i (newStatus_of l) w)"
proof -
  have "status (jobs (mark i (newStatus_of l) w) ! k) = ''none'' \<or>
        status (jobs (mark i (newStatus_of l) w) ! k) = ''Interview'' \<or>
        status (jobs (mark i (newStatus_of l) w) ! k) = ''Rejected''"
    if "k < length (jobs w)" for k
  proof (cases "k = i")
    case True
    with assms(2) show ?thesis by (simp add: newStatus_of_def)
  next
    case False
    with assms(1) that show ?thesis by (simp add: statuses_ok_def list_all_length)
  qed
  then show ?thesis by (simp add: statuses_ok_def list_all_length)
qed

lemma removeAll_nth_distinct:
  "distinct xs \<Longrightarrow> i < length xs \<Longrightarrow> removeAll (xs ! i) xs = take i xs @ drop (Suc i) xs"
proof (induction xs arbitrary: i)
  case Nil
  then show ?case by simp
next
  case (Cons x xs)
  show ?case
  proof (cases i)
    case 0
    with Cons.prems show ?thesis by simp
  next
    case (Suc k)
    with Cons.prems have "xs ! k \<noteq> x" by auto
    with Suc Cons show ?thesis by simp
  qed
qed

section \<open>Deletion and index lookup\<close>

lemma deleteJob_valid:
  assumes "0 \<le> i" "i < int (length (jobs w))"
  shows "deleteJob i w = Inr (updateUI (unlink (nat i) w))"
  using assms by (simp add: deleteJob_def unlink_def element_remove_def Let_def)

lemma deleteJob_invalid:
  "\<not> (0 \<le> i \<and> i < int (length (jobs w))) \<Longrightarrow> deleteJob i w = Inl TypeError"
  unfolding deleteJob_def by (simp only: if_False)

lemma unlink_fields [simp]:
  "currentTab (unlink i w) = currentTab w"
  "nodes (unlink i w) = nodes w"
  "emptyUI (unlink i w) = emptyUI w"
  "tabButtons (unlink i w) = tabButtons w"
  "classList (unlink i w) = classList w"
  "countMsg (unlink i w) = countMsg w"
  "dashboard (unlink i w) = dashboard w"
  "jobs (unlink i w) = take i (jobs w) @ drop (Suc i) (jobs w)"
  "container (unlink i w) =
     filter (\<lambda>x. x \<noteq> element (jobs w ! i) \<and> element (jobs w ! i) \<notin> set (enclosing w x))
       (container w)"
  by (simp_all add: unlink_def element_remove_def)

lemma unlink_enclosing:
  "enclosing (unlink i w) x =
     (if x = element (jobs w ! i) then []
      else if element (jobs w ! i) \<in> set (enclosing w x)
           then takeWhile (\<lambda>a. a \<noteq> element (jobs w ! i)) (enclosing w x) @ [element (jobs w ! i)]
           else enclosing w x)"
  by (simp add: unlink_def element_remove_def)

lemma flat_updateUI: "flat (updateUI w) = flat w"
  by (simp add: flat_def)

lemma flat_mark: "flat (mark i s w) = flat w"
  by (simp add: flat_def)

lemma flat_container:
  assumes "flat w"
  shows "filter (\<lambda>x. x \<noteq> el \<and> el \<notin> set (enclosing w x)) (container w) = removeAll el (container w)"
proof -
  have "filter (\<lambda>x. x \<noteq> el \<and> el \<notin> set (enclosing w x)) (container w) =
        filter (\<lambda>x. el \<noteq> x) (container w)"
    using assms by (intro filter_cong) (auto simp: flat_def list_all_iff)
  then show ?thesis by (simp add: removeAll_filter_not_eq)
qed

lemma flat_unlink:
  assumes "flat w"
  shows "flat (unlink i w)"
  using assms by (auto simp: flat_def list_all_iff unlink_enclosing)

lemma set_take_drop_subset: "set (take i xs @ drop (Suc i) xs) \<subseteq> set xs"
  using set_take_subset [of i xs] set_drop_subset [of "Suc i" xs] by auto

lemma synced_unlink:
  assumes "synced w" "i < length (jobs w)" "flat w"
  shows "synced (unlink i w)"
proof -
  have c: "map element (jobs w) = container w" and d: "distinct (container w)"
    using assms(1) by (simp_all add: synced_def)
  have i: "i < length (container w)" using assms(2) c by (metis length_map)
  have e: "element (jobs w ! i) = container w ! i"
    using assms(2) c by (metis nth_map)
  have "map element (take i (jobs w) @ drop (Suc i) (jobs w)) =
          take i (container w) @ drop (Suc i) (container w)"
    by (simp add: take_map [symmetric] drop_map [symmetric] c)
  also have "\<dots> = removeAll (element (jobs w ! i)) (container w)"
    by (simp add: e removeAll_nth_distinct [OF d i])
  finally have m: "map element (jobs (unlink i w)) = container (unlink i w)"
    by (simp add: flat_container [OF assms(3)])
  have "\<forall>j \<in> set (jobs w). dataset_status (nodes w (element j)) = status j"
    using assms(1) by (simp add: synced_def list_all_iff)
  then have "\<forall>j \<in> set (jobs (unlink i w)).
               dataset_status (nodes (unlink i w) (element j)) = status j"
    using set_take_drop_subset [of i "jobs w"] by auto
  then show ?thesis
    using m d by (simp add: synced_def list_all_iff)
qed

lemma distinct_take_drop: "distinct xs \<Longrightarrow> distinct (take i xs @ drop (Suc i) xs)"
  using set_take_disj_set_drop_if_distinct [of xs i "Suc i"] by simp

lemma elements_mark: "map element (jobs (mark i s w)) = map element (jobs w)"
proof (cases "i < length (jobs w)")
  case True
  then show ?thesis by (simp add: map_update list_update_same_conv)
next
  case False
  then show ?thesis by (simp add: list_update_beyond)
qed

lemma elements_unlink:
  "distinct (map element (jobs w)) \<Longrightarrow> distinct (map element (jobs (unlink i w)))"
  using distinct_take_drop [of "map element (jobs w)" i] by (simp add: take_map drop_map)

lemma statuses_ok_unlink:
  assumes "statuses_ok w"
  shows "statuses_ok (unlink i w)"
  using assms set_take_drop_subset [of i "jobs w"]
  by (auto simp: statuses_ok_def list_all_iff)

lemma findIndex_range: "findIndex P xs = - 1 \<or> (0 \<le> findIndex P xs \<and> findIndex P xs < int (length xs))"
  by (induction xs) (auto simp: Let_def)

lemma findIndex_found:
  "findIndex P xs \<noteq> - 1 \<Longrightarrow>
     0 \<le> findIndex P xs \<and> findIndex P xs < int (length xs) \<and> P (xs ! nat (findIndex P xs)) \<and>
     (\<forall>k < nat (findIndex P xs). \<not> P (xs ! k))"
proof (induction xs)
  case Nil
  then show ?case by simp
next
  case (Cons x xs)
  show ?case
  proof (cases "P x")
    case True
    then show ?thesis by simp
  next
    case False
    with Cons.prems have ne: "findIndex P xs \<noteq> - 1"
      by (simp add: Let_def split: if_splits)
    from Cons.IH [OF ne] have ih: "0 \<le> findIndex P xs" "findIndex P xs < int (length xs)"
      "P (xs ! nat (findIndex P xs))" "\<forall>k < nat (findIndex P xs). \<not> P (xs ! k)"
      by simp_all
    have eq: "findIndex P (x # xs) = findIndex P xs + 1"
      using False ne by (simp add: Let_def)
    have n: "nat (findIndex P xs + 1) = Suc (nat (findIndex P xs))"
      using ih(1) by simp
    have "\<not> P ((x # xs) ! k)" if "k < Suc (nat (findIndex P xs))" for k
      using that False ih(4) by (cases k) simp_all
    then show ?thesis
      unfolding eq n using ih by simp
  qed
qed

lemma findIndex_none: "findIndex P xs = - 1 \<Longrightarrow> \<forall>x \<in> set xs. \<not> P x"
proof (induction xs)
  case Nil
  then show ?case by simp
next
  case (Cons x xs)
  from Cons.prems have nx: "\<not> P x" by (simp split: if_splits)
  from findIndex_range [of P xs] have "findIndex P xs + 1 \<noteq> - 1" by auto
  with Cons.prems nx have "findIndex P xs = - 1"
    by (simp add: Let_def split: if_splits)
  with Cons.IH nx show ?case by simp
qed

section \<open>Start-up and runs\<close>

lemma initLoop_jobs:
  "fst (initLoop els (js, nd)) = js @ map (\<lambda>el. \<lparr>element = el, status = ''none''\<rparr>) els"
  by (induction els arbitrary: js nd) simp_all

lemma initLoop_nodes:
  "snd (initLoop els (js, nd)) e = (if e \<in> set els then (nd e)\<lparr>dataset_status := ''none''\<rparr> else nd e)"
  by (induction els arbitrary: js nd) auto

lemma init_Inr:
  assumes "init p = Inr w"
  obtains d jobElements where
    "initDashboard (pg_cards p) \<lparr>Total = None, Interview = None, Rejected = None\<rparr> = Inr d"
    "pg_container p = Some jobElements" "pg_tabs p"
    "w = updateUI
          \<lparr>currentTab = ''All'', jobs = map (\<lambda>el. \<lparr>element = el, status = ''none''\<rparr>) jobElements,
           container = jobElements, enclosing = pg_enclosing p,
           nodes = snd (initLoop jobElements ([], pg_nodes p)), emptyUI = pg_emptyUI p,
           tabButtons = pg_tabButtons p, classList = pg_classList p,
           countMsg = pg_countMsg p, dashboard = d\<rparr>"
  using assms
  by (auto simp: init_def Let_def initLoop_jobs split: sum.splits option.splits if_splits)

lemma init_synced:
  assumes "well_formed_page p" "init p = Inr w"
  shows "synced w"
proof -
  from assms(2) obtain d jobElements where
    c: "pg_container p = Some jobElements" and
    w: "w = updateUI
          \<lparr>currentTab = ''All'', jobs = map (\<lambda>el. \<lparr>element = el, status = ''none''\<rparr>) jobElements,
           container = jobElements, enclosing = pg_enclosing p,
           nodes = snd (initLoop jobElements ([], pg_nodes p)), emptyUI = pg_emptyUI p,
           tabButtons = pg_tabButtons p, classList = pg_classList p,
           countMsg = pg_countMsg p, dashboard = d\<rparr>"
    by (rule init_Inr)
  have "distinct jobElements" using assms(1) c by (simp add: well_formed_page_def)
  then show ?thesis
    unfolding w synced_updateUI
    by (simp add: synced_def list_all_iff initLoop_nodes comp_def)
qed

lemma init_statuses_ok:
  assumes "init p = Inr w"
  shows "statuses_ok w"
proof -
  from assms obtain d jobElements where
    w: "w = updateUI
          \<lparr>currentTab = ''All'', jobs = map (\<lambda>el. \<lparr>element = el, status = ''none''\<rparr>) jobElements,
           container = jobElements, enclosing = pg_enclosing p,
           nodes = snd (initLoop jobElements ([], pg_nodes p)), emptyUI = pg_emptyUI p,
           tabButtons = pg_tabButtons p, classList = pg_classList p,
           countMsg = pg_countMsg p, dashboard = d\<rparr>"
    by (rule init_Inr)
  show ?thesis
    unfolding w statuses_ok_updateUI by (simp add: statuses_ok_def list_all_iff)
qed

lemma init_flat:
  assumes "flat_page p" "init p = Inr w"
  shows "flat w"
proof -
  from assms(2) obtain d jobElements where
    c: "pg_container p = Some jobElements" and
    w: "w = updateUI
          \<lparr>currentTab = ''All'', jobs = map (\<lambda>el. \<lparr>element = el, status = ''none''\<rparr>) jobElements,
           container = jobElements, enclosing = pg_enclosing p,
           nodes = snd (initLoop jobElements ([], pg_nodes p)), emptyUI = pg_emptyUI p,
           tabButtons = pg_tabButtons p, classList = pg_classList p,
           countMsg = pg_countMsg p, dashboard = d\<rparr>"
    by (rule init_Inr)
  show ?thesis
    unfolding w flat_updateUI using assms(1) c by (simp add: flat_def flat_page_def)
qed

lemma init_distinct:
  assumes "well_formed_page p" "init p = Inr w"
  shows "distinct (map element (jobs w))"
  using init_synced [OF assms] by (simp add: synced_def)

lemma updateJobStatus_Inr:
  assumes "updateJobStatus i l w = Inr w'"
  shows "nat i < length (jobs w) \<and> w' = updateUI (mark (nat i) (newStatus_of l) w)"
proof (cases "0 \<le> i \<and> i < int (length (jobs w))")
  case True
  then have "updateJobStatus i l w = Inr (updateUI (mark (nat i) (newStatus_of l) w))"
    by (simp add: updateJobStatus_valid)
  with assms True show ?thesis by auto
next
  case False
  with assms show ?thesis by (simp add: updateJobStatus_invalid)
qed

lemma deleteJob_Inr:
  assumes "deleteJob i w = Inr w'"
  shows "nat i < length (jobs w) \<and> w' = updateUI (unlink (nat i) w)"
proof (cases "0 \<le> i \<and> i < int (length (jobs w))")
  case True
  then have "deleteJob i w = Inr (updateUI (unlink (nat i) w))"
    by (simp add: deleteJob_valid)
  with assms True show ?thesis by auto
next
  case False
  with assms show ?thesis by (simp add: deleteJob_invalid)
qed

lemma updateJobStatus_synced:
  assumes "synced w" "updateJobStatus i l w = Inr w'"
  shows "synced w'"
proof (cases "0 \<le> i \<and> i < int (length (jobs w))")
  case True
  then have "updateJobStatus i l w = Inr (updateUI (mark (nat i) (newStatus_of l) w))"
    by (simp add: updateJobStatus_valid)
  with assms(2) have "w' = updateUI (mark (nat i) (newStatus_of l) w)" by simp
  moreover have "nat i < length (jobs w)" using True by auto
  ultimately show ?thesis using assms(1) by (simp add: synced_updateUI synced_mark)
next
  case False
  with assms(2) show ?thesis by (simp add: updateJobStatus_invalid)
qed

lemma updateJobStatus_statuses_ok:
  assumes "statuses_ok w" "updateJobStatus i l w = Inr w'"
  shows "statuses_ok w'"
proof (cases "0 \<le> i \<and> i < int (length (jobs w))")
  case True
  then have "updateJobStatus i l w = Inr (updateUI (mark (nat i) (newStatus_of l) w))"
    by (simp add: updateJobStatus_valid)
  with assms(2) have "w' = updateUI (mark (nat i) (newStatus_of l) w)" by simp
  moreover have "nat i < length (jobs w)" using True by auto
  ultimately show ?thesis using assms(1) by (simp add: statuses_ok_updateUI statuses_ok_mark)
next
  case False
  with assms(2) show ?thesis by (simp add: updateJobStatus_invalid)
qed

lemma deleteJob_synced:
  assumes "synced w" "flat w" "deleteJob i w = Inr w'"
  shows "synced w'"
  using deleteJob_Inr [OF assms(3)] assms(1,2)
  by (simp add: synced_updateUI synced_unlink)

lemma deleteJob_statuses_ok:
  assumes "statuses_ok w" "deleteJob i w = Inr w'"
  shows "statuses_ok w'"
proof (cases "0 \<le> i \<and> i < int (length (jobs w))")
  case True
  then have "deleteJob i w = Inr (updateUI (unlink (nat i) w))"
    by (simp add: deleteJob_valid)
  with assms(2) have "w' = updateUI (unlink (nat i) w)" by simp
  with assms(1) show ?thesis by (simp add: statuses_ok_updateUI statuses_ok_unlink)
next
  case False
  with assms(2) show ?thesis by (simp add: deleteJob_invalid)
qed

lemma handleJobAction_cases:
  "handleJobAction e w = Inr w \<or>
   (\<exists>i. handleJobAction e w = deleteJob i w) \<or>
   (\<exists>i l. handleJobAction e w = updateJobStatus i l w)"
  by (auto simp: handleJobAction_def Let_def split: option.split)

lemma handleTabClick_fields [simp]:
  "jobs (handleTabClick e w) = jobs w"
  "container (handleTabClick e w) = container w"
  "enclosing (handleTabClick e w) = enclosing w"
  "dashboard (handleTabClick e w) = dashboard w"
  "tabButtons (handleTabClick e w) = tabButtons w"
  "dataset_status (nodes (handleTabClick e w) el) = dataset_status (nodes w el)"
  "third_child (nodes (handleTabClick e w) el) = third_child (nodes w el)"
  by (simp_all add: handleTabClick_def Let_def)

lemma handleTabClick_synced: "synced (handleTabClick e w) = synced w"
  by (simp add: synced_def)

lemma handleTabClick_statuses_ok: "statuses_ok (handleTabClick e w) = statuses_ok w"
  by (simp add: statuses_ok_def)

lemma handleTabClick_flat: "flat (handleTabClick e w) = flat w"
  by (simp add: flat_def)

text \<open>
  A property kept by the three ways a state changes (a status transition, a deletion, a tab
  click) is kept by every operation, hence by every run.
\<close>

lemma perform_preserves:
  assumes m: "\<And>i s w. P w \<Longrightarrow> i < length (jobs w) \<Longrightarrow> P (updateUI (mark i s w))"
    and u: "\<And>i w. P w \<Longrightarrow> i < length (jobs w) \<Longrightarrow> P (updateUI (unlink i w))"
    and t: "\<And>e w. P w \<Longrightarrow> P (handleTabClick e w)"
    and w: "P w" and a: "perform a w = Inr w'"
  shows "P w'"
proof -
  have upd: "P v" if "updateJobStatus i l w = Inr v" for i l v
    using updateJobStatus_Inr [OF that] m [OF w] by simp
  have del: "P v" if "deleteJob i w = Inr v" for i v
    using deleteJob_Inr [OF that] u [OF w] by simp
  show ?thesis
  proof (cases a)
    case (JobAction e)
    with a have h: "handleJobAction e w = Inr w'" by simp
    from handleJobAction_cases [of e w] show ?thesis
    proof (elim disjE exE)
      assume "handleJobAction e w = Inr w"
      with h w show ?thesis by simp
    next
      fix i assume "handleJobAction e w = deleteJob i w"
      with h have "deleteJob i w = Inr w'" by simp
      then show ?thesis by (rule del)
    next
      fix i l assume "handleJobAction e w = updateJobStatus i l w"
      with h have "updateJobStatus i l w = Inr w'" by simp
      then show ?thesis by (rule upd)
    qed
  next
    case (TabClick e)
    with a t [OF w, of e] show ?thesis by auto
  next
    case (UpdateJobStatus i l)
    with a have "updateJobStatus i l w = Inr w'" by simp
    then show ?thesis by (rule upd)
  next
    case (DeleteJob i)
    with a have "deleteJob i w = Inr w'" by simp
    then show ?thesis by (rule del)
  qed
qed

lemma run_preserves:
  assumes m: "\<And>i s w. P w \<Longrightarrow> i < length (jobs w) \<Longrightarrow> P (updateUI (mark i s w))"
    and u: "\<And>i w. P w \<Longrightarrow> i < length (jobs w) \<Longrightarrow> P (updateUI (unlink i w))"
    and t: "\<And>e w. P w \<Longrightarrow> P (handleTabClick e w)"
  shows "P w \<Longrightarrow> P (run as w)"
proof (induction as arbitrary: w)
  case Nil
  then show ?case by simp
next
  case (Cons a as)
  show ?case
  proof (cases "perform a w")
    case (Inl err)
    with Cons show ?thesis by simp
  next
    case (Inr w')
    from perform_preserves [of P, OF m u t Cons.prems Inr] have "P w'" .
    with Cons.IH Inr show ?thesis by simp
  qed
qed

lemma run_synced_flat:
  assumes "synced w" "flat w"
  shows "synced (run as w) \<and> flat (run as w)"
  using run_preserves [of "\<lambda>w. synced w \<and> flat w" w as] assms
  by (simp add: synced_updateUI flat_updateUI synced_mark flat_mark synced_unlink flat_unlink
      handleTabClick_synced handleTabClick_flat)

text \<open>
  On every page, flat or not, the records' elements stay pairwise distinct: a deletion takes
  one record out, and nothing ever adds one.
\<close>

lemma run_distinct:
  assumes "distinct (map element (jobs w))"
  shows "distinct (map element (jobs (run as w)))"
  using run_preserves [of "\<lambda>w. distinct (map element (jobs w))" w as] assms
    elements_mark elements_unlink
  by simp

lemma perform_statuses_ok:
  assumes "statuses_ok w" "perform a w = Inr w'"
  shows "statuses_ok w'"
proof (cases a)
  case (JobAction e)
  with assms(2) have h: "handleJobAction e w = Inr w'" by simp
  from handleJobAction_cases [of e w] show ?thesis
  proof (elim disjE exE)
    assume "handleJobAction e w = Inr w"
    with h assms(1) show ?thesis by simp
  next
    fix i assume "handleJobAction e w = deleteJob i w"
    with h have "deleteJob i w = Inr w'" by simp
    with assms(1) show ?thesis by (rule deleteJob_statuses_ok)
  next
    fix i l assume "handleJobAction e w = updateJobStatus i l w"
    with h have "updateJobStatus i l w = Inr w'" by simp
    with assms(1) show ?thesis by (rule updateJobStatus_statuses_ok)
  qed
next
  case (TabClick e)
  with assms show ?thesis by (auto simp: handleTabClick_statuses_ok)
next
  case (UpdateJobStatus i l)
  with assms show ?thesis by (auto dest: updateJobStatus_statuses_ok)
next
  case (DeleteJob i)
  with assms show ?thesis by (auto dest: deleteJob_statuses_ok)
qed

lemma run_statuses_ok: "statuses_ok w \<Longrightarrow> statuses_ok (run as w)"
  by (induction as arbitrary: w) (auto split: sum.split dest: perform_statuses_ok)

section \<open>Counting\<close>

lemma InterviewCount_eq: "InterviewCount w = length (filter (\<lambda>j. status j = ''Interview'') (jobs w))"
  by (simp add: InterviewCount_def foldl_countStep)

lemma RejectedCount_eq: "RejectedCount w = length (filter (\<lambda>j. status j = ''Rejected'') (jobs w))"
  by (simp add: RejectedCount_def foldl_countStep)

lemma count_update:
  assumes "i < length xs"
  shows "length (filter P (xs[i := y])) + (if P (xs ! i) then 1 else 0) =
         length (filter P xs) + (if P y then 1 else 0)"
proof -
  have "length (filter P xs) = length (filter P (take i xs @ xs ! i # drop (Suc i) xs))"
    using id_take_nth_drop [OF assms] by simp
  then show ?thesis
    using assms by (simp add: upd_conv_take_nth_drop)
qed

section \<open>Tab emphasis\<close>

lemma deemphasize_self: "deemphasized (deemphasize cl b b)"
  by (simp add: deemphasized_def deemphasize_def classList_add_def classList_remove_def)

lemma deemphasize_keeps: "deemphasized (cl b) \<Longrightarrow> deemphasized (deemphasize cl b' b)"
  using deemphasize_self [of cl b] by (cases "b' = b") (simp_all add: deemphasize_def)

lemma foldl_deemphasize_keeps:
  "deemphasized (cl b) \<Longrightarrow> deemphasized (foldl deemphasize cl bs b)"
  by (induction bs arbitrary: cl) (simp_all add: deemphasize_keeps)

lemma foldl_deemphasize_all:
  "b \<in> set bs \<Longrightarrow> deemphasized (foldl deemphasize cl bs b)"
proof (induction bs arbitrary: cl)
  case Nil
  then show ?case by simp
next
  case (Cons a bs)
  show ?case
  proof (cases "b = a")
    case True
    then show ?thesis
      by (simp add: foldl_deemphasize_keeps deemphasize_self)
  next
    case False
    with Cons show ?thesis by simp
  qed
qed

lemma emphasize_self: "emphasized (emphasize cl b b)"
  by (simp add: emphasized_def emphasize_def classList_add_def classList_remove_def)

lemma emphasize_other: "b' \<noteq> b \<Longrightarrow> emphasize cl b b' = cl b'"
  by (simp add: emphasize_def)

lemma handleTabClick_button:
  assumes "tagName e = ''BUTTON''"
  shows "handleTabClick e w =
           renderJobs (w\<lparr>classList := emphasize (foldl deemphasize (classList w) (tabButtons w)) (target e),
                         currentTab := trim (textContent e)\<rparr>)"
  using assms by (simp add: handleTabClick_def Let_def)

section \<open>The example states, evaluated\<close>

lemma string_of_nat_small:
  "string_of_nat 0 = ''0''" "string_of_nat 1 = ''1''" "string_of_nat 2 = ''2''"
  "string_of_nat 3 = ''3''" "string_of_nat (Suc 0) = ''1''"
  by code_simp+

lemma string_of_nat_Suc:
  "string_of_nat (Suc (Suc 0)) = ''2''" "string_of_nat (Suc (Suc (Suc 0))) = ''3''"
  using string_of_nat_small(3,4) by (simp_all add: numeral_2_eq_2 numeral_3_eq_3)

lemma trim_titles:
  "trim ''Total'' = ''Total''" "trim '' Interview '' = ''Interview''"
  "trim ''Rejected'' = ''Rejected''"
  by code_simp+

lemmas eval_defs =
  updateJobStatus_def deleteJob_def element_remove_def updateUI_def updateDashboardCounts_def
  renderJobs_def
  toggleEmptyState_def write_text_def countStep_def isVisible_def restyle_def Let_def
  string_of_nat_small string_of_nat_Suc

lemma init_demo_page: "init demo_page = Inr fresh"
  by (simp add: init_def demo_page_def fresh_def blank_def eval_defs trim_titles fun_upd_twist)

lemma update_fresh: "updateJobStatus 1 ''interview'' fresh = Inr interviewing"
  by (simp add: fresh_def interviewing_def blank_def eval_defs fun_upd_twist)

lemma update_interviewing: "updateJobStatus 1 ''interview'' interviewing = Inr interviewing"
  by (simp add: interviewing_def blank_def eval_defs fun_upd_twist)

lemma fresh_jobs:
  "jobs fresh = [\<lparr>element = 0, status = ''none''\<rparr>, \<lparr>element = 1, status = ''none''\<rparr>,
                 \<lparr>element = 2, status = ''none''\<rparr>]"
  by (simp add: fresh_def)

lemma fresh_valid: "(0::int) \<le> 0" "0 < int (length (jobs fresh))" "(0::int) \<le> 1"
  "1 < int (length (jobs fresh))" "(0::int) \<le> 2" "2 < int (length (jobs fresh))"
  by (simp_all add: fresh_jobs)

lemma fresh_badges:
  "third_child (nodes fresh 2) = None"
  "third_child (nodes fresh (Suc 0)) =
     Some (Some \<lparr>btn_textContent = ''Not Applied'', btn_className = ''btn btn-soft''\<rparr>)"
  by (simp_all add: fresh_def blank_def)

lemma fresh_dashboard:
  "dashboard fresh = \<lparr>Total = Some ''3'', Interview = Some ''0'', Rejected = Some ''0''\<rparr>"
  by (simp add: fresh_def)

lemma lower_labels:
  "toLowerCase (trim '' Interview '') = ''interview''"
  "toLowerCase (trim ''Rejected'') = ''rejected''"
  by code_simp+

section \<open>The claims\<close>

text \<open>
  C1.  For every record of a collection whose elements are pairwise distinct, and every
  current tab, after \<open>renderJobs\<close> the record's card is visible if and only if the tab is
  \<open>All\<close> and the status is \<open>none\<close>, or the tab equals the status; the card's display is then
  \<open>block\<close> and otherwise \<open>none\<close>.  In particular, under \<open>All\<close> a record whose status is one
  of none, Interview, Rejected is visible exactly when its status is \<open>none\<close>.  The count
  message, when its element exists, reads the number of visible records followed by
  \<open>jobs\<close>.
\<close>

theorem renderJobs_visibility:
  assumes "distinct (map element (jobs w))" and "jb \<in> set (jobs w)"
  shows "visible (renderJobs w) (element jb) =
           ((currentTab w = ''All'' \<and> status jb = ''none'') \<or> currentTab w = status jb) \<and>
         display (nodes (renderJobs w) (element jb)) =
           (if visible (renderJobs w) (element jb) then ''block'' else ''none'') \<and>
         (currentTab w = ''All'' \<and>
          (status jb = ''none'' \<or> status jb = ''Interview'' \<or> status jb = ''Rejected'') \<longrightarrow>
            visible (renderJobs w) (element jb) = (status jb = ''none'')) \<and>
         countMsg (renderJobs w) =
           write_text (countMsg w)
             (string_of_nat (length (filter (\<lambda>j. visible (renderJobs w) (element j)) (jobs w)))
                @ '' jobs'')"
proof -
  have v: "visible (renderJobs w) (element j) = isVisible (currentTab w) j"
    if "j \<in> set (jobs w)" for j
    using renderLoop_display [OF assms(1) that, of "currentTab w" "nodes w" 0]
    by (simp add: visible_def renderJobs_nodes)
  have f: "filter (\<lambda>j. visible (renderJobs w) (element j)) (jobs w) =
           filter (isVisible (currentTab w)) (jobs w)"
    by (rule filter_cong) (simp_all add: v)
  have d: "display (nodes (renderJobs w) (element jb)) =
           (if isVisible (currentTab w) jb then ''block'' else ''none'')"
    using renderLoop_display [OF assms, of "currentTab w" "nodes w" 0]
    by (simp add: renderJobs_nodes)
  show ?thesis
    unfolding f v [OF assms(2)] d
    by (auto simp: isVisible_def renderJobs_countMsg)
qed

text \<open>The specification's example: under \<open>All\<close>, of four cards exactly cards 0 and 3 show.\<close>

theorem renderJobs_visibility_witness:
  "distinct (map element (jobs four_jobs)) \<and>
   visible (renderJobs four_jobs) 0 \<and> \<not> visible (renderJobs four_jobs) 1 \<and>
   \<not> visible (renderJobs four_jobs) 2 \<and> visible (renderJobs four_jobs) 3 \<and>
   countMsg (renderJobs four_jobs) = Some ''2 jobs''"
  using renderJobs_visibility [of four_jobs "\<lparr>element = 0, status = ''none''\<rparr>"]
    renderJobs_visibility [of four_jobs "\<lparr>element = 1, status = ''Interview''\<rparr>"]
    renderJobs_visibility [of four_jobs "\<lparr>element = 2, status = ''Rejected''\<rparr>"]
    renderJobs_visibility [of four_jobs "\<lparr>element = 3, status = ''none''\<rparr>"]
  by (simp add: four_jobs_def write_text_def string_of_nat_small string_of_nat_Suc)

text \<open>
  C2, as amended.  After start-up on a well-formed page on which no job card lies inside
  another, and any sequence of operations (clicks on the job container, tab clicks, and
  direct calls of \<open>updateJobStatus\<close> and \<open>deleteJob\<close> with any arguments) the collection and
  the document are synchronized: the records' elements are, in order and without repetition,
  exactly the attached job cards, and every card's status tag is its record's status.  From
  such a state each of the two mutations either throws before writing anything, or returns
  a synchronized state: it has updated both the record and its card.
\<close>

theorem controller_synchronized:
  assumes "well_formed_page p" and "flat_page p" and "init p = Inr w0"
  shows "synced (run as w0) \<and>
         (\<forall>i l. updateJobStatus i l (run as w0) = Inl TypeError \<or>
                (\<exists>w'. updateJobStatus i l (run as w0) = Inr w' \<and> synced w')) \<and>
         (\<forall>i. deleteJob i (run as w0) = Inl TypeError \<or>
              (\<exists>w'. deleteJob i (run as w0) = Inr w' \<and> synced w'))"
proof -
  have "synced w0" "flat w0"
    using assms by (simp_all add: init_synced init_flat)
  then have s: "synced (run as w0)" and f: "flat (run as w0)"
    using run_synced_flat [of w0 as] by simp_all
  have u: "updateJobStatus i l (run as w0) = Inl TypeError \<or>
           (\<exists>w'. updateJobStatus i l (run as w0) = Inr w' \<and> synced w')" for i l
  proof (cases "updateJobStatus i l (run as w0)")
    case (Inl err)
    then show ?thesis by (cases err) simp
  next
    case (Inr w')
    with s show ?thesis by (simp add: updateJobStatus_synced)
  qed
  have d: "deleteJob i (run as w0) = Inl TypeError \<or>
           (\<exists>w'. deleteJob i (run as w0) = Inr w' \<and> synced w')" for i
  proof (cases "deleteJob i (run as w0)")
    case (Inl err)
    then show ?thesis by (cases err) simp
  next
    case (Inr w')
    with s f show ?thesis by (simp add: deleteJob_synced)
  qed
  from s u d show ?thesis by blast
qed

text \<open>A run on the example page: an interview click, a tab click, a deletion.\<close>

theorem controller_synchronized_witness:
  "well_formed_page demo_page \<and> flat_page demo_page \<and> init demo_page = Inr fresh \<and>
   synced (run [JobAction click_interview, TabClick click_tab, JobAction click_trash] fresh)"
proof -
  have wf: "well_formed_page demo_page"
    by (simp add: well_formed_page_def demo_page_def)
  have fl: "flat_page demo_page"
    by (simp add: flat_page_def demo_page_def)
  from controller_synchronized [OF wf fl init_demo_page] wf fl init_demo_page
  show ?thesis by blast
qed

text \<open>
  C2, as stated, fails on a page where a job card lies inside another: start-up records
  both cards; a click on the outer card's trash icon removes the outer card from the
  document, and the inner card with it, but drops the outer card's record only.  The
  collection then still holds the record of card 1, which is no longer attached.
\<close>

theorem controller_synchronized_counterexample:
  "well_formed_page nested_page \<and> init nested_page = Inr nested_fresh \<and>
   map element (jobs (run [JobAction click_trash_outer] nested_fresh)) = [1, 2] \<and>
   container (run [JobAction click_trash_outer] nested_fresh) = [2] \<and>
   \<not> synced (run [JobAction click_trash_outer] nested_fresh)"
proof -
  have wf: "well_formed_page nested_page"
    by (simp add: well_formed_page_def nested_page_def demo_page_def)
  have i: "init nested_page = Inr nested_fresh"
    by (simp add: init_def nested_page_def demo_page_def nested_fresh_def fresh_def blank_def
        eval_defs trim_titles fun_upd_twist)
  have v: "(0::int) \<le> 0" "0 < int (length (jobs nested_fresh))"
    by (simp_all add: nested_fresh_def fresh_def)
  have f: "findIndex (\<lambda>j. element j = 0) (jobs nested_fresh) = 0"
    by (simp add: nested_fresh_def fresh_def)
  have h: "handleJobAction click_trash_outer nested_fresh = Inr (updateUI (unlink 0 nested_fresh))"
    using deleteJob_valid [OF v] by (simp add: handleJobAction_def click_trash_outer_def f)
  have r: "run [JobAction click_trash_outer] nested_fresh = updateUI (unlink 0 nested_fresh)"
    by (simp add: h)
  have j: "map element (jobs (updateUI (unlink 0 nested_fresh))) = [1, 2]"
    by (simp add: nested_fresh_def fresh_def)
  have c: "container (updateUI (unlink 0 nested_fresh)) = [2]"
    by (simp add: nested_fresh_def fresh_def)
  from j c have n: "\<not> synced (updateUI (unlink 0 nested_fresh))"
    by (simp add: synced_def)
  show ?thesis
    unfolding r using wf i j c n by blast
qed

text \<open>
  C3, as amended.  At a valid index, \<open>updateJobStatus(i, "interview")\<close> returns normally;
  record \<open>i\<close> then has status \<open>Interview\<close> and its card's status tag is \<open>Interview\<close>.  The
  interview count grows by exactly one when the record's previous status was not
  \<open>Interview\<close> and is unchanged when it already was; the rejected count drops by one when
  the previous status was \<open>Rejected\<close> and is unchanged otherwise.  The dashboard shows the
  new counts where its display elements exist.
\<close>

theorem updateJobStatus_interview_counts:
  assumes "0 \<le> i" and "i < int (length (jobs w))"
  shows "\<exists>w'. updateJobStatus i ''interview'' w = Inr w' \<and>
           status (jobs w' ! nat i) = ''Interview'' \<and>
           element (jobs w' ! nat i) = element (jobs w ! nat i) \<and>
           dataset_status (nodes w' (element (jobs w ! nat i))) = ''Interview'' \<and>
           InterviewCount w' =
             (if status (jobs w ! nat i) = ''Interview'' then InterviewCount w
              else InterviewCount w + 1) \<and>
           RejectedCount w =
             (if status (jobs w ! nat i) = ''Rejected'' then RejectedCount w' + 1
              else RejectedCount w') \<and>
           Interview (dashboard w') =
             write_text (Interview (dashboard w)) (string_of_nat (InterviewCount w')) \<and>
           Rejected (dashboard w') =
             write_text (Rejected (dashboard w)) (string_of_nat (RejectedCount w'))"
proof -
  let ?w' = "updateUI (mark (nat i) ''Interview'' w)"
  have len: "nat i < length (jobs w)" using assms by simp
  have 1: "updateJobStatus i ''interview'' w = Inr ?w'"
    using updateJobStatus_valid [OF assms, of "''interview''"] by (simp add: newStatus_of_def)
  have j: "jobs ?w' = (jobs w)[nat i := (jobs w ! nat i)\<lparr>status := ''Interview''\<rparr>]"
    by simp
  have ci: "InterviewCount ?w' =
             (if status (jobs w ! nat i) = ''Interview'' then InterviewCount w
              else InterviewCount w + 1)"
    using count_update [OF len, of "\<lambda>j. status j = ''Interview''" "(jobs w ! nat i)\<lparr>status := ''Interview''\<rparr>"]
    by (simp add: InterviewCount_eq split: if_splits)
  have cr: "RejectedCount w =
             (if status (jobs w ! nat i) = ''Rejected'' then RejectedCount ?w' + 1
              else RejectedCount ?w')"
    using count_update [OF len, of "\<lambda>j. status j = ''Rejected''" "(jobs w ! nat i)\<lparr>status := ''Interview''\<rparr>"]
    by (simp add: RejectedCount_eq split: if_splits)
  have s: "status (jobs ?w' ! nat i) = ''Interview''" "element (jobs ?w' ! nat i) = element (jobs w ! nat i)"
    using len by simp_all
  have t: "dataset_status (nodes ?w' (element (jobs w ! nat i))) = ''Interview''"
    by (simp add: mark_def)
  have di: "Interview (dashboard ?w') =
             write_text (Interview (dashboard w)) (string_of_nat (InterviewCount ?w'))"
    by (simp add: updateUI_dashboard InterviewCount_eq)
  have dr: "Rejected (dashboard ?w') =
             write_text (Rejected (dashboard w)) (string_of_nat (RejectedCount ?w'))"
    by (simp add: updateUI_dashboard RejectedCount_eq)
  from 1 s t ci cr di dr show ?thesis by blast
qed

text \<open>From the fresh state the interview count goes from 0 to 1.\<close>

theorem updateJobStatus_interview_counts_witness:
  "(0::int) \<le> 1 \<and> 1 < int (length (jobs fresh)) \<and> InterviewCount fresh = 0 \<and>
   (\<exists>w'. updateJobStatus 1 ''interview'' fresh = Inr w' \<and>
         status (jobs w' ! 1) = ''Interview'' \<and>
         InterviewCount w' = 1 \<and> Interview (dashboard w') = Some ''1'')"
proof -
  have c: "InterviewCount fresh = 0"
    by (simp add: InterviewCount_def fresh_jobs countStep_def)
  have s: "status (jobs fresh ! nat 1) = ''none''"
    by (simp add: fresh_jobs)
  from updateJobStatus_interview_counts [OF fresh_valid(3,4)] obtain w' where
    u: "updateJobStatus 1 ''interview'' fresh = Inr w'" and
    st: "status (jobs w' ! nat 1) = ''Interview''" and
    ic: "InterviewCount w' =
           (if status (jobs fresh ! nat 1) = ''Interview'' then InterviewCount fresh
            else InterviewCount fresh + 1)" and
    di: "Interview (dashboard w') =
           write_text (Interview (dashboard fresh)) (string_of_nat (InterviewCount w'))"
    by blast
  from ic have ic1: "InterviewCount w' = 1" by (simp add: c fresh_jobs)
  from di have d1: "Interview (dashboard w') = Some ''1''"
    by (simp add: ic1 fresh_dashboard write_text_def string_of_nat_small)
  from st have st1: "status (jobs w' ! 1) = ''Interview''" by simp
  from fresh_valid(3,4) c u st1 ic1 d1 show ?thesis by blast
qed

text \<open>
  C3, as stated, fails where the record is already in interview: from the fresh state the
  first call gives \<open>interviewing\<close>, whose interview count is 1; the second call, at the same
  valid index, returns \<open>interviewing\<close> again, so the count is still 1 and has not grown.
\<close>

theorem updateJobStatus_interview_counts_counterexample:
  "(0::int) \<le> 1 \<and> 1 < int (length (jobs interviewing)) \<and>
   updateJobStatus 1 ''interview'' fresh = Inr interviewing \<and>
   updateJobStatus 1 ''interview'' interviewing = Inr interviewing \<and>
   InterviewCount interviewing = 1 \<and>
   Interview (dashboard interviewing) = Some ''1''"
  using update_fresh update_interviewing
  by (simp add: interviewing_def InterviewCount_def countStep_def)

text \<open>
  C4.  At a valid index, \<open>deleteJob(i)\<close> returns normally and removes exactly one record: the
  collection is one shorter, the deleted record's card is no longer attached, a card is
  attached afterwards exactly if it was attached, is not the deleted card and does not lie
  inside it (so in a flat state every other card is attached exactly if it was), the
  records before \<open>i\<close> stay in place, those after \<open>i\<close> move down by one in order, and no
  card's status tag or badge changes.
\<close>

theorem deleteJob_removes_one:
  assumes "0 \<le> i" and "i < int (length (jobs w))"
  shows "\<exists>w'. deleteJob i w = Inr w' \<and>
           Suc (length (jobs w')) = length (jobs w) \<and>
           element (jobs w ! nat i) \<notin> set (container w') \<and>
           (\<forall>el. (el \<in> set (container w')) =
                   (el \<in> set (container w) \<and> el \<noteq> element (jobs w ! nat i) \<and>
                    element (jobs w ! nat i) \<notin> set (enclosing w el))) \<and>
           (flat w \<longrightarrow>
              (\<forall>el. el \<noteq> element (jobs w ! nat i) \<longrightarrow>
                      (el \<in> set (container w')) = (el \<in> set (container w)))) \<and>
           (\<forall>k < nat i. jobs w' ! k = jobs w ! k) \<and>
           (\<forall>k. nat i \<le> k \<and> k < length (jobs w') \<longrightarrow> jobs w' ! k = jobs w ! Suc k) \<and>
           (\<forall>el. dataset_status (nodes w' el) = dataset_status (nodes w el) \<and>
                 third_child (nodes w' el) = third_child (nodes w el))"
proof -
  let ?w' = "updateUI (unlink (nat i) w)"
  have len: "nat i < length (jobs w)" using assms by simp
  have 1: "deleteJob i w = Inr ?w'" by (rule deleteJob_valid [OF assms])
  have 2: "Suc (length (jobs ?w')) = length (jobs w)" using len by simp
  have 3: "element (jobs w ! nat i) \<notin> set (container ?w')" by simp
  have 4: "\<forall>el. (el \<in> set (container ?w')) =
                   (el \<in> set (container w) \<and> el \<noteq> element (jobs w ! nat i) \<and>
                    element (jobs w ! nat i) \<notin> set (enclosing w el))" by auto
  have fl: "flat w \<longrightarrow>
              (\<forall>el. el \<noteq> element (jobs w ! nat i) \<longrightarrow>
                      (el \<in> set (container ?w')) = (el \<in> set (container w)))"
    by (auto simp: flat_def list_all_iff)
  have 5: "\<forall>k < nat i. jobs ?w' ! k = jobs w ! k"
    using len by (simp add: nth_append)
  have 6: "\<forall>k. nat i \<le> k \<and> k < length (jobs ?w') \<longrightarrow> jobs ?w' ! k = jobs w ! Suc k"
    using len by (auto simp: nth_append min_def)
  have 7: "\<forall>el. dataset_status (nodes ?w' el) = dataset_status (nodes w el) \<and>
                 third_child (nodes ?w' el) = third_child (nodes w el)" by simp
  from 1 2 3 4 fl 5 6 7 show ?thesis by blast
qed

text \<open>Deleting the middle card of three leaves cards 0 and 2, in this order.\<close>

theorem deleteJob_removes_one_witness:
  "(0::int) \<le> 1 \<and> 1 < int (length (jobs fresh)) \<and>
   (\<exists>w'. deleteJob 1 fresh = Inr w' \<and> length (jobs w') = 2 \<and> 1 \<notin> set (container w') \<and>
         jobs w' ! 0 = \<lparr>element = 0, status = ''none''\<rparr> \<and>
         jobs w' ! 1 = \<lparr>element = 2, status = ''none''\<rparr>)"
proof -
  note v = fresh_valid(3,4)
  from deleteJob_removes_one [OF v] obtain w' where
    d: "deleteJob 1 fresh = Inr w'" and
    l: "Suc (length (jobs w')) = length (jobs fresh)" and
    e: "element (jobs fresh ! nat 1) \<notin> set (container w')" and
    lo: "\<forall>k < nat 1. jobs w' ! k = jobs fresh ! k" and
    hi: "\<forall>k. nat 1 \<le> k \<and> k < length (jobs w') \<longrightarrow> jobs w' ! k = jobs fresh ! Suc k"
    by blast
  from l have l2: "length (jobs w') = 2" by (simp add: fresh_jobs)
  from e have e1: "1 \<notin> set (container w')" by (simp add: fresh_jobs)
  from lo have j0: "jobs w' ! 0 = \<lparr>element = 0, status = ''none''\<rparr>" by (simp add: fresh_jobs)
  from hi l2 have "jobs w' ! 1 = jobs fresh ! Suc 1" by simp
  then have j1: "jobs w' ! 1 = \<lparr>element = 2, status = ''none''\<rparr>" by (simp add: fresh_jobs)
  from v d l2 e1 j0 j1 show ?thesis by blast
qed

text \<open>
  C5.  A click on the job container is a no-op when the target lies in no job entry, and
  when the enclosing entry is no record's element.  Otherwise the index used is that of the
  first record whose element is the enclosing entry (found at dispatch time, and valid); in
  a delete-affordance region the handler does \<open>deleteJob\<close> at that index, whatever the
  target's tag and label, and the remaining records are the old ones; outside such a region
  it does \<open>updateJobStatus\<close> exactly when the target is a \<open>BUTTON\<close> whose trimmed,
  lower-cased label is \<open>interview\<close> or \<open>rejected\<close>, and is a no-op otherwise.
\<close>

theorem handleJobAction_dispatch:
  "(closest_job_item e = None \<longrightarrow> handleJobAction e w = Inr w) \<and>
   (\<forall>jobEl. closest_job_item e = Some jobEl \<and> jobEl \<notin> element ` set (jobs w) \<longrightarrow>
      handleJobAction e w = Inr w) \<and>
   (\<forall>jobEl. closest_job_item e = Some jobEl \<and> jobEl \<in> element ` set (jobs w) \<longrightarrow>
      (\<exists>i. 0 \<le> i \<and> i < int (length (jobs w)) \<and> element (jobs w ! nat i) = jobEl \<and>
           (\<forall>k < nat i. element (jobs w ! k) \<noteq> jobEl) \<and>
           handleJobAction e w =
             (if closest_fa_trash e \<or> closest_div_border_rounded_full e then deleteJob i w
              else if tagName e = ''BUTTON'' \<and>
                      (toLowerCase (trim (textContent e)) = ''interview'' \<or>
                       toLowerCase (trim (textContent e)) = ''rejected'')
                   then updateJobStatus i (toLowerCase (trim (textContent e))) w
                   else Inr w) \<and>
           (closest_fa_trash e \<or> closest_div_border_rounded_full e \<longrightarrow>
              (\<exists>w'. handleJobAction e w = Inr w' \<and>
                    jobs w' = take (nat i) (jobs w) @ drop (Suc (nat i)) (jobs w) \<and>
                    jobEl \<notin> set (container w')))))"
proof (intro conjI allI impI)
  assume "closest_job_item e = None"
  then show "handleJobAction e w = Inr w" by (simp add: handleJobAction_def)
next
  fix jobEl
  assume a: "closest_job_item e = Some jobEl \<and> jobEl \<notin> element ` set (jobs w)"
  have "findIndex (\<lambda>j. element j = jobEl) (jobs w) = - 1"
  proof (rule ccontr)
    assume "findIndex (\<lambda>j. element j = jobEl) (jobs w) \<noteq> - 1"
    from findIndex_found [OF this]
    have "nat (findIndex (\<lambda>j. element j = jobEl) (jobs w)) < length (jobs w)"
      and "element (jobs w ! nat (findIndex (\<lambda>j. element j = jobEl) (jobs w))) = jobEl"
      by auto
    then have "jobEl \<in> element ` set (jobs w)"
      by (metis imageI nth_mem)
    with a show False by simp
  qed
  with a show "handleJobAction e w = Inr w" by (simp add: handleJobAction_def)
next
  fix jobEl
  assume a: "closest_job_item e = Some jobEl \<and> jobEl \<in> element ` set (jobs w)"
  let ?i = "findIndex (\<lambda>j. element j = jobEl) (jobs w)"
  have ne: "?i \<noteq> - 1"
  proof
    assume "?i = - 1"
    from findIndex_none [OF this] a show False by auto
  qed
  from findIndex_found [OF ne]
  have i: "0 \<le> ?i" "?i < int (length (jobs w))" "element (jobs w ! nat ?i) = jobEl"
    "\<forall>k < nat ?i. element (jobs w ! k) \<noteq> jobEl"
    by simp_all
  have h: "handleJobAction e w =
             (if closest_fa_trash e \<or> closest_div_border_rounded_full e then deleteJob ?i w
              else if tagName e = ''BUTTON'' \<and>
                      (toLowerCase (trim (textContent e)) = ''interview'' \<or>
                       toLowerCase (trim (textContent e)) = ''rejected'')
                   then updateJobStatus ?i (toLowerCase (trim (textContent e))) w
                   else Inr w)"
    using a ne by (simp add: handleJobAction_def Let_def)
  have d: "\<exists>w'. handleJobAction e w = Inr w' \<and>
                jobs w' = take (nat ?i) (jobs w) @ drop (Suc (nat ?i)) (jobs w) \<and>
                jobEl \<notin> set (container w')"
    if "closest_fa_trash e \<or> closest_div_border_rounded_full e"
  proof -
    from that h have "handleJobAction e w = Inr (updateUI (unlink (nat ?i) w))"
      by (simp add: deleteJob_valid [OF i(1,2)])
    moreover have "jobs (updateUI (unlink (nat ?i) w)) =
                     take (nat ?i) (jobs w) @ drop (Suc (nat ?i)) (jobs w)" by simp
    moreover have "jobEl \<notin> set (container (updateUI (unlink (nat ?i) w)))"
      by (simp add: i(3))
    ultimately show ?thesis by blast
  qed
  from i h d
  show "\<exists>i. 0 \<le> i \<and> i < int (length (jobs w)) \<and> element (jobs w ! nat i) = jobEl \<and>
           (\<forall>k < nat i. element (jobs w ! k) \<noteq> jobEl) \<and>
           handleJobAction e w =
             (if closest_fa_trash e \<or> closest_div_border_rounded_full e then deleteJob i w
              else if tagName e = ''BUTTON'' \<and>
                      (toLowerCase (trim (textContent e)) = ''interview'' \<or>
                       toLowerCase (trim (textContent e)) = ''rejected'')
                   then updateJobStatus i (toLowerCase (trim (textContent e))) w
                   else Inr w) \<and>
           (closest_fa_trash e \<or> closest_div_border_rounded_full e \<longrightarrow>
              (\<exists>w'. handleJobAction e w = Inr w' \<and>
                    jobs w' = take (nat i) (jobs w) @ drop (Suc (nat i)) (jobs w) \<and>
                    jobEl \<notin> set (container w')))"
    by blast
qed

text \<open>
  A click that lies in the trash icon of card 1 and on a button labelled \<open>Rejected\<close> deletes;
  a click on a button labelled \<open>Interview\<close> outside it updates; a click in no card does nothing.
\<close>

theorem handleJobAction_dispatch_witness:
  "closest_job_item click_trash = Some 1 \<and> 1 \<in> element ` set (jobs fresh) \<and>
   handleJobAction click_trash fresh = deleteJob 1 fresh \<and>
   handleJobAction click_interview fresh = updateJobStatus 1 ''interview'' fresh \<and>
   handleJobAction click_tab fresh = Inr fresh"
proof -
  have a: "closest_job_item click_trash = Some 1" "1 \<in> element ` set (jobs fresh)"
    by (simp_all add: click_trash_def fresh_jobs)
  from handleJobAction_dispatch [of click_trash fresh] a
  obtain i where i: "element (jobs fresh ! nat i) = 1" "0 \<le> i" "i < int (length (jobs fresh))"
    and h: "handleJobAction click_trash fresh =
             (if closest_fa_trash click_trash \<or> closest_div_border_rounded_full click_trash
              then deleteJob i fresh
              else if tagName click_trash = ''BUTTON'' \<and>
                      (toLowerCase (trim (textContent click_trash)) = ''interview'' \<or>
                       toLowerCase (trim (textContent click_trash)) = ''rejected'')
                   then updateJobStatus i (toLowerCase (trim (textContent click_trash))) fresh
                   else Inr fresh)"
    by blast
  from i have "nat i < 3" by (simp add: fresh_jobs)
  then have "nat i = 0 \<or> nat i = 1 \<or> nat i = 2" by arith
  with i(1) have "nat i = 1" by (auto simp: fresh_jobs)
  with i(2) have "i = 1" by simp
  with h have 1: "handleJobAction click_trash fresh = deleteJob 1 fresh"
    by (simp add: click_trash_def)
  have b: "closest_job_item click_interview = Some 1"
    by (simp add: click_interview_def)
  from handleJobAction_dispatch [of click_interview fresh] a(2) b
  obtain j where j: "element (jobs fresh ! nat j) = 1" "0 \<le> j" "j < int (length (jobs fresh))"
    and g: "handleJobAction click_interview fresh =
             (if closest_fa_trash click_interview \<or> closest_div_border_rounded_full click_interview
              then deleteJob j fresh
              else if tagName click_interview = ''BUTTON'' \<and>
                      (toLowerCase (trim (textContent click_interview)) = ''interview'' \<or>
                       toLowerCase (trim (textContent click_interview)) = ''rejected'')
                   then updateJobStatus j (toLowerCase (trim (textContent click_interview))) fresh
                   else Inr fresh)"
    by blast
  from j have "nat j < 3" by (simp add: fresh_jobs)
  then have "nat j = 0 \<or> nat j = 1 \<or> nat j = 2" by arith
  with j(1) have "nat j = 1" by (auto simp: fresh_jobs)
  with j(2) have "j = 1" by simp
  with g have 2: "handleJobAction click_interview fresh = updateJobStatus 1 ''interview'' fresh"
    by (simp add: click_interview_def lower_labels)
  have 3: "handleJobAction click_tab fresh = Inr fresh"
    using handleJobAction_dispatch [of click_tab fresh] by (simp add: click_tab_def)
  from a 1 2 3 show ?thesis by simp
qed

text \<open>
  C6.  \<open>updateJobStatus\<close> is idempotent: at a valid index, for every label, a second call
  with the same arguments returns exactly the state the first call returned (record
  statuses, status tags, badge label and styling, dashboard texts, count message, card
  visibility and empty-state block).
\<close>

theorem updateJobStatus_idempotent:
  assumes "0 \<le> i" "i < int (length (jobs w))"
  shows "\<exists>w'. updateJobStatus i l w = Inr w' \<and> updateJobStatus i l w' = Inr w'"
proof -
  let ?w' = "updateUI (mark (nat i) (newStatus_of l) w)"
  have len: "nat i < length (jobs w)" using assms by simp
  have 1: "updateJobStatus i l w = Inr ?w'"
    by (rule updateJobStatus_valid [OF assms])
  have "i < int (length (jobs ?w'))" using assms by simp
  then have "updateJobStatus i l ?w' = Inr (updateUI (mark (nat i) (newStatus_of l) ?w'))"
    using assms(1) by (rule updateJobStatus_valid [rotated])
  also have "\<dots> = Inr ?w'"
    by (simp add: mark_updateUI_mark [OF len] updateUI_idem)
  finally show ?thesis using 1 by blast
qed

text \<open>The fresh state has a valid index 1.\<close>

theorem updateJobStatus_idempotent_witness:
  "(0::int) \<le> 1 \<and> 1 < int (length (jobs fresh)) \<and>
   (\<exists>w'. updateJobStatus 1 ''interview'' fresh = Inr w' \<and>
         updateJobStatus 1 ''interview'' w' = Inr w')"
  using updateJobStatus_idempotent [OF fresh_valid(3,4), of "''interview''"] fresh_valid(3,4)
  by blast

text \<open>
  C7.  At a valid index and for every label, \<open>updateJobStatus\<close> returns normally, sets the
  record's status and its card's status tag to the new status, and treats the badge as
  follows: with no third child, or a third child without a button, the card's third child
  is left as it was; with a badge button, its label becomes the new status and its class
  the green styling for \<open>Interview\<close>, the red one otherwise.
\<close>

theorem updateJobStatus_badge:
  assumes "0 \<le> i" and "i < int (length (jobs w))"
  shows "\<exists>w'. updateJobStatus i l w = Inr w' \<and>
           status (jobs w' ! nat i) = newStatus_of l \<and>
           element (jobs w' ! nat i) = element (jobs w ! nat i) \<and>
           dataset_status (nodes w' (element (jobs w ! nat i))) = newStatus_of l \<and>
           third_child (nodes w' (element (jobs w ! nat i))) =
             (case third_child (nodes w (element (jobs w ! nat i))) of
                None \<Rightarrow> None
              | Some None \<Rightarrow> Some None
              | Some (Some b) \<Rightarrow>
                  Some (Some (b\<lparr>btn_textContent := newStatus_of l,
                               btn_className :=
                                 (if newStatus_of l = ''Interview''
                                  then ''btn btn-soft bg-[#10B981] text-white border-none w-max px-4''
                                  else ''btn btn-soft bg-[#EF4444] text-white border-none w-max px-4'')\<rparr>)))"
proof -
  let ?w' = "updateUI (mark (nat i) (newStatus_of l) w)"
  have len: "nat i < length (jobs w)" using assms by simp
  have 1: "updateJobStatus i l w = Inr ?w'" by (rule updateJobStatus_valid [OF assms])
  have 2: "status (jobs ?w' ! nat i) = newStatus_of l"
    "element (jobs ?w' ! nat i) = element (jobs w ! nat i)"
    using len by simp_all
  have 3: "dataset_status (nodes ?w' (element (jobs w ! nat i))) = newStatus_of l"
    by (simp add: mark_def)
  have 4: "third_child (nodes ?w' (element (jobs w ! nat i))) =
             restyle (newStatus_of l) (third_child (nodes w (element (jobs w ! nat i))))"
    by (simp add: mark_def)
  from 1 2 3 4 show ?thesis
    unfolding restyle_def by blast
qed

text \<open>Card 2 of the example page has no badge; card 1 has one.\<close>

theorem updateJobStatus_badge_witness:
  "(0::int) \<le> 2 \<and> 2 < int (length (jobs fresh)) \<and>
   third_child (nodes fresh 2) = None \<and>
   (\<exists>w'. updateJobStatus 2 ''rejected'' fresh = Inr w' \<and>
         status (jobs w' ! 2) = ''Rejected'' \<and>
         dataset_status (nodes w' 2) = ''Rejected'' \<and>
         third_child (nodes w' 2) = None) \<and>
   (\<exists>w'. updateJobStatus 1 ''interview'' fresh = Inr w' \<and>
         third_child (nodes w' 1) =
           Some (Some \<lparr>btn_textContent = ''Interview'',
             btn_className = ''btn btn-soft bg-[#10B981] text-white border-none w-max px-4''\<rparr>))"
proof -
  have e: "element (jobs fresh ! nat 2) = 2" "element (jobs fresh ! nat 1) = 1"
    by (simp_all add: fresh_jobs)
  from updateJobStatus_badge [OF fresh_valid(5,6), of "''rejected''"] obtain w2 where
    "updateJobStatus 2 ''rejected'' fresh = Inr w2"
    "status (jobs w2 ! nat 2) = newStatus_of ''rejected''"
    "dataset_status (nodes w2 (element (jobs fresh ! nat 2))) = newStatus_of ''rejected''"
    "third_child (nodes w2 (element (jobs fresh ! nat 2))) =
       (case third_child (nodes fresh (element (jobs fresh ! nat 2))) of
          None \<Rightarrow> None
        | Some None \<Rightarrow> Some None
        | Some (Some b) \<Rightarrow>
            Some (Some (b\<lparr>btn_textContent := newStatus_of ''rejected'',
                         btn_className :=
                           (if newStatus_of ''rejected'' = ''Interview''
                            then ''btn btn-soft bg-[#10B981] text-white border-none w-max px-4''
                            else ''btn btn-soft bg-[#EF4444] text-white border-none w-max px-4'')\<rparr>)))"
    by blast
  then have 2: "updateJobStatus 2 ''rejected'' fresh = Inr w2 \<and>
         status (jobs w2 ! 2) = ''Rejected'' \<and>
         dataset_status (nodes w2 2) = ''Rejected'' \<and>
         third_child (nodes w2 2) = None"
    by (simp add: fresh_jobs fresh_badges newStatus_of_def)
  from updateJobStatus_badge [OF fresh_valid(3,4), of "''interview''"] obtain w1 where
    "updateJobStatus 1 ''interview'' fresh = Inr w1"
    "third_child (nodes w1 (element (jobs fresh ! nat 1))) =
       (case third_child (nodes fresh (element (jobs fresh ! nat 1))) of
          None \<Rightarrow> None
        | Some None \<Rightarrow> Some None
        | Some (Some b) \<Rightarrow>
            Some (Some (b\<lparr>btn_textContent := newStatus_of ''interview'',
                         btn_className :=
                           (if newStatus_of ''interview'' = ''Interview''
                            then ''btn btn-soft bg-[#10B981] text-white border-none w-max px-4''
                            else ''btn btn-soft bg-[#EF4444] text-white border-none w-max px-4'')\<rparr>)))"
    by blast
  then have 1: "updateJobStatus 1 ''interview'' fresh = Inr w1 \<and>
         third_child (nodes w1 1) =
           Some (Some \<lparr>btn_textContent = ''Interview'',
             btn_className = ''btn btn-soft bg-[#10B981] text-white border-none w-max px-4''\<rparr>)"
    by (simp add: fresh_jobs fresh_badges newStatus_of_def)
  from fresh_valid(5,6) fresh_badges(1) 1 2 show ?thesis by blast
qed

text \<open>
  C8.  After a status transition and after a deletion at a valid index, each dashboard
  display that exists shows the count recomputed over the new collection (its size, the
  number of records with status \<open>Interview\<close>, the number with status \<open>Rejected\<close>); a display
  that is missing stays missing, and the operation returns normally all the same.
\<close>

theorem dashboard_recomputed:
  assumes "0 \<le> i" and "i < int (length (jobs w))"
  shows "(\<exists>w'. updateJobStatus i l w = Inr w' \<and>
            Total (dashboard w') =
              write_text (Total (dashboard w)) (string_of_nat (length (jobs w'))) \<and>
            Interview (dashboard w') =
              write_text (Interview (dashboard w))
                (string_of_nat (length (filter (\<lambda>j. status j = ''Interview'') (jobs w')))) \<and>
            Rejected (dashboard w') =
              write_text (Rejected (dashboard w))
                (string_of_nat (length (filter (\<lambda>j. status j = ''Rejected'') (jobs w'))))) \<and>
         (\<exists>w'. deleteJob i w = Inr w' \<and>
            Total (dashboard w') =
              write_text (Total (dashboard w)) (string_of_nat (length (jobs w'))) \<and>
            Interview (dashboard w') =
              write_text (Interview (dashboard w))
                (string_of_nat (length (filter (\<lambda>j. status j = ''Interview'') (jobs w')))) \<and>
            Rejected (dashboard w') =
              write_text (Rejected (dashboard w))
                (string_of_nat (length (filter (\<lambda>j. status j = ''Rejected'') (jobs w')))))"
proof
  let ?w' = "updateUI (mark (nat i) (newStatus_of l) w)"
  have "updateJobStatus i l w = Inr ?w'" by (rule updateJobStatus_valid [OF assms])
  moreover have "dashboard ?w' =
     \<lparr>Total = write_text (Total (dashboard w)) (string_of_nat (length (jobs ?w'))),
      Interview = write_text (Interview (dashboard w))
        (string_of_nat (length (filter (\<lambda>j. status j = ''Interview'') (jobs ?w')))),
      Rejected = write_text (Rejected (dashboard w))
        (string_of_nat (length (filter (\<lambda>j. status j = ''Rejected'') (jobs ?w'))))\<rparr>"
    by (simp add: updateUI_dashboard)
  ultimately show "\<exists>w'. updateJobStatus i l w = Inr w' \<and>
            Total (dashboard w') =
              write_text (Total (dashboard w)) (string_of_nat (length (jobs w'))) \<and>
            Interview (dashboard w') =
              write_text (Interview (dashboard w))
                (string_of_nat (length (filter (\<lambda>j. status j = ''Interview'') (jobs w')))) \<and>
            Rejected (dashboard w') =
              write_text (Rejected (dashboard w))
                (string_of_nat (length (filter (\<lambda>j. status j = ''Rejected'') (jobs w'))))"
    by (metis dashboard.select_convs(1,2,3))
next
  let ?w' = "updateUI (unlink (nat i) w)"
  have "deleteJob i w = Inr ?w'" by (rule deleteJob_valid [OF assms])
  moreover have "dashboard ?w' =
     \<lparr>Total = write_text (Total (dashboard w)) (string_of_nat (length (jobs ?w'))),
      Interview = write_text (Interview (dashboard w))
        (string_of_nat (length (filter (\<lambda>j. status j = ''Interview'') (jobs ?w')))),
      Rejected = write_text (Rejected (dashboard w))
        (string_of_nat (length (filter (\<lambda>j. status j = ''Rejected'') (jobs ?w'))))\<rparr>"
    by (simp add: updateUI_dashboard)
  ultimately show "\<exists>w'. deleteJob i w = Inr w' \<and>
            Total (dashboard w') =
              write_text (Total (dashboard w)) (string_of_nat (length (jobs w'))) \<and>
            Interview (dashboard w') =
              write_text (Interview (dashboard w))
                (string_of_nat (length (filter (\<lambda>j. status j = ''Interview'') (jobs w')))) \<and>
            Rejected (dashboard w') =
              write_text (Rejected (dashboard w))
                (string_of_nat (length (filter (\<lambda>j. status j = ''Rejected'') (jobs w'))))"
    by (metis dashboard.select_convs(1,2,3))
qed

text \<open>On the example page all three displays exist.\<close>

theorem dashboard_recomputed_witness:
  "(0::int) \<le> 0 \<and> 0 < int (length (jobs fresh)) \<and>
   (\<exists>w'. updateJobStatus 0 ''rejected'' fresh = Inr w' \<and>
         Total (dashboard w') = Some (string_of_nat (length (jobs w'))) \<and>
         Rejected (dashboard w') =
           Some (string_of_nat (length (filter (\<lambda>j. status j = ''Rejected'') (jobs w'))))) \<and>
   (\<exists>w'. deleteJob 0 fresh = Inr w' \<and>
         Total (dashboard w') = Some (string_of_nat (length (jobs w'))))"
proof -
  note v = fresh_valid(1,2)
  have t: "write_text (Total (dashboard fresh)) s = Some s"
    "write_text (Rejected (dashboard fresh)) s = Some s" for s
    by (simp_all add: fresh_dashboard write_text_def)
  from dashboard_recomputed [OF v, of "''rejected''"] v show ?thesis
    unfolding t by blast
qed

text \<open>
  C9.  A click on a \<open>BUTTON\<close> of the tab bar sets the current tab to the button's trimmed
  label, hence to one of All, Interview, Rejected when the label is one of the tab labels;
  it leaves the collection, the attached cards, the dashboard displays and every card's
  status tag and badge unchanged; cards, count message and empty-state block are those of
  \<open>renderJobs\<close> under the new tab; the clicked button is emphasized and every other tab
  button de-emphasized.
\<close>

theorem handleTabClick_frame:
  assumes "tagName e = ''BUTTON''"
  shows "currentTab (handleTabClick e w) = trim (textContent e) \<and>
         (trim (textContent e) \<in> set tab_labels \<longrightarrow>
            currentTab (handleTabClick e w) = ''All'' \<or>
            currentTab (handleTabClick e w) = ''Interview'' \<or>
            currentTab (handleTabClick e w) = ''Rejected'') \<and>
         jobs (handleTabClick e w) = jobs w \<and>
         container (handleTabClick e w) = container w \<and>
         dashboard (handleTabClick e w) = dashboard w \<and>
         (\<forall>el. dataset_status (nodes (handleTabClick e w) el) = dataset_status (nodes w el) \<and>
               third_child (nodes (handleTabClick e w) el) = third_child (nodes w el)) \<and>
         nodes (handleTabClick e w) = nodes (renderJobs (w\<lparr>currentTab := trim (textContent e)\<rparr>)) \<and>
         countMsg (handleTabClick e w) = countMsg (renderJobs (w\<lparr>currentTab := trim (textContent e)\<rparr>)) \<and>
         emptyUI (handleTabClick e w) = emptyUI (renderJobs (w\<lparr>currentTab := trim (textContent e)\<rparr>)) \<and>
         emphasized (classList (handleTabClick e w) (target e)) \<and>
         (\<forall>b \<in> set (tabButtons w). b \<noteq> target e \<longrightarrow> deemphasized (classList (handleTabClick e w) b))"
proof -
  have t: "currentTab (handleTabClick e w) = trim (textContent e)"
    by (simp add: handleTabClick_button [OF assms])
  have l: "trim (textContent e) \<in> set tab_labels \<longrightarrow>
           trim (textContent e) = ''All'' \<or> trim (textContent e) = ''Interview'' \<or>
           trim (textContent e) = ''Rejected''"
    by (simp add: tab_labels_def)
  have n: "nodes (handleTabClick e w) = nodes (renderJobs (w\<lparr>currentTab := trim (textContent e)\<rparr>))"
    by (simp add: handleTabClick_button [OF assms] renderJobs_nodes)
  have c: "countMsg (handleTabClick e w) = countMsg (renderJobs (w\<lparr>currentTab := trim (textContent e)\<rparr>))"
    by (simp add: handleTabClick_button [OF assms] renderJobs_countMsg)
  have u: "emptyUI (handleTabClick e w) = emptyUI (renderJobs (w\<lparr>currentTab := trim (textContent e)\<rparr>))"
    by (simp add: handleTabClick_button [OF assms] renderJobs_emptyUI)
  have em: "emphasized (classList (handleTabClick e w) (target e))"
    by (simp add: handleTabClick_button [OF assms] emphasize_self)
  have de: "\<forall>b \<in> set (tabButtons w). b \<noteq> target e \<longrightarrow> deemphasized (classList (handleTabClick e w) b)"
    by (simp add: handleTabClick_button [OF assms] emphasize_other foldl_deemphasize_all)
  show ?thesis
    using t l n c u em de by simp
qed

text \<open>A click on the tab labelled \<open>Interview\<close>.\<close>

theorem handleTabClick_frame_witness:
  "tagName click_tab = ''BUTTON'' \<and> trim (textContent click_tab) \<in> set tab_labels \<and>
   currentTab (handleTabClick click_tab interviewing) = ''Interview'' \<and>
   jobs (handleTabClick click_tab interviewing) = jobs interviewing \<and>
   dashboard (handleTabClick click_tab interviewing) = dashboard interviewing \<and>
   emphasized (classList (handleTabClick click_tab interviewing) 11) \<and>
   deemphasized (classList (handleTabClick click_tab interviewing) 10)"
proof -
  have b: "tagName click_tab = ''BUTTON''" by (simp add: click_tab_def)
  have t: "trim (textContent click_tab) = ''Interview''"
    by (simp add: click_tab_def trim_titles)
  have g: "target click_tab = 11" by (simp add: click_tab_def)
  have m: "10 \<in> set (tabButtons interviewing)" by (simp add: interviewing_def)
  from handleTabClick_frame [OF b, of interviewing] b t g m show ?thesis
    by (simp add: tab_labels_def)
qed

text \<open>
  C10.  At a valid index and for every label string, \<open>updateJobStatus\<close> returns normally and
  sets the record's status to \<open>Interview\<close> exactly when the label is \<open>interview\<close>, and to
  \<open>Rejected\<close> for every other label; the status is never \<open>none\<close> afterwards, and statuses
  stay among none, Interview, Rejected.  In every state reached from start-up by any
  sequence of operations, every record's status is one of these three.
\<close>

theorem updateJobStatus_label:
  assumes "0 \<le> i" and "i < int (length (jobs w))"
  shows "(\<exists>w'. updateJobStatus i l w = Inr w' \<and>
            (status (jobs w' ! nat i) = ''Interview'') = (l = ''interview'') \<and>
            (status (jobs w' ! nat i) = ''Rejected'') = (l \<noteq> ''interview'') \<and>
            status (jobs w' ! nat i) \<noteq> ''none'' \<and>
            (statuses_ok w \<longrightarrow> statuses_ok w')) \<and>
         (\<forall>p w0 as. init p = Inr w0 \<longrightarrow> statuses_ok (run as w0))"
proof
  let ?w' = "updateUI (mark (nat i) (newStatus_of l) w)"
  have len: "nat i < length (jobs w)" using assms by simp
  have 1: "updateJobStatus i l w = Inr ?w'" by (rule updateJobStatus_valid [OF assms])
  have 2: "status (jobs ?w' ! nat i) = newStatus_of l" using len by simp
  have 3: "statuses_ok w \<longrightarrow> statuses_ok ?w'"
    using len by (simp add: statuses_ok_updateUI statuses_ok_mark)
  show "\<exists>w'. updateJobStatus i l w = Inr w' \<and>
            (status (jobs w' ! nat i) = ''Interview'') = (l = ''interview'') \<and>
            (status (jobs w' ! nat i) = ''Rejected'') = (l \<noteq> ''interview'') \<and>
            status (jobs w' ! nat i) \<noteq> ''none'' \<and>
            (statuses_ok w \<longrightarrow> statuses_ok w')"
    apply (rule exI [of _ ?w'])
    using 1 2 3 by (simp add: newStatus_of_def)
next
  show "\<forall>p w0 as. init p = Inr w0 \<longrightarrow> statuses_ok (run as w0)"
    by (simp add: init_statuses_ok run_statuses_ok)
qed

text \<open>Any label other than \<open>interview\<close> rejects.\<close>

theorem updateJobStatus_label_witness:
  "(0::int) \<le> 0 \<and> 0 < int (length (jobs fresh)) \<and>
   (\<exists>w'. updateJobStatus 0 ''anything else'' fresh = Inr w' \<and>
         status (jobs w' ! 0) = ''Rejected'') \<and>
   statuses_ok (run [JobAction click_interview, JobAction click_trash] fresh)"
proof -
  from updateJobStatus_label [OF fresh_valid(1,2), of "''anything else''"]
  have a: "\<exists>w'. updateJobStatus 0 ''anything else'' fresh = Inr w' \<and>
            (status (jobs w' ! nat 0) = ''Rejected'') = (''anything else'' \<noteq> ''interview'')"
    and b: "\<forall>p w0 as. init p = Inr w0 \<longrightarrow> statuses_ok (run as w0)"
    by blast+
  from a have a': "\<exists>w'. updateJobStatus 0 ''anything else'' fresh = Inr w' \<and>
                    status (jobs w' ! 0) = ''Rejected''"
    by simp
  from b init_demo_page
  have "statuses_ok (run [JobAction click_interview, JobAction click_trash] fresh)"
    by blast
  with fresh_valid(1,2) a' show ?thesis by blast
qed

end
